theory Spec2Isabelle
  imports Complex_Main "HOL-Library.Sublist" "HOL-Library.AList"
begin

section \<open>JavaScript strings\<close>

text \<open>
  A JavaScript string is modelled as a \<^typ>\<open>string\<close>.  The three string methods the
  servers use are \<open>split\<close> (on a one-character separator), \<open>startsWith\<close> and
  \<open>includes\<close>; \<open>toLowerCase\<close> is modelled on the ASCII letters, which is all the
  extension table can tell apart.
\<close>

abbreviation slash :: char where
  "slash \<equiv> CHR ''/''"

abbreviation backslash :: char where
  "backslash \<equiv> CHR 0x5C"

abbreviation dquote :: char where
  "dquote \<equiv> CHR 0x22"

fun split_on :: "char \<Rightarrow> string \<Rightarrow> string list" where
  "split_on c [] = [[]]"
| "split_on c (x # xs) =
     (if x = c then [] # split_on c xs
      else (case split_on c xs of [] \<Rightarrow> [[x]] | y # ys \<Rightarrow> (x # y) # ys))"

definition startsWith :: "string \<Rightarrow> string \<Rightarrow> bool" where
  "startsWith s p = prefix p s"

fun str_includes :: "string \<Rightarrow> string \<Rightarrow> bool" where
  "str_includes [] sub = (sub = [])"
| "str_includes (x # xs) sub = (if prefix sub (x # xs) then True else str_includes xs sub)"

definition lowerChar :: "char \<Rightarrow> char" where
  "lowerChar c =
     (let n = (of_char c :: nat) in if 65 \<le> n \<and> n \<le> 90 then char_of (n + 32) else c)"

definition toLowerCase :: "string \<Rightarrow> string" where
  "toLowerCase s = map lowerChar s"

section \<open>The \<open>path\<close> module (POSIX flavour)\<close>

text \<open>
  \<open>path.normalize\<close>, \<open>path.join\<close> and \<open>path.extname\<close> belong to the Node.js runtime, not
  to the repository.  They are modelled here as Node's POSIX implementation behaves:
  \<open>normalizeString\<close> walks the \<open>/\<close>-separated segments from left to right and keeps the
  segments of the result built so far (most recent first); an empty segment and \<open>.\<close> are
  dropped, \<open>..\<close> removes the last kept segment unless there is none or it is itself
  \<open>..\<close>, in which case \<open>..\<close> is kept only when the path is relative
  (\<open>allowAboveRoot\<close>).
\<close>

fun join_segs :: "string list \<Rightarrow> string" where
  "join_segs [] = []"
| "join_segs [s] = s"
| "join_segs (s # t # ss) = s @ slash # join_segs (t # ss)"

fun normalizeString :: "bool \<Rightarrow> string list \<Rightarrow> string list \<Rightarrow> string list" where
  "normalizeString allowAboveRoot [] res = rev res"
| "normalizeString allowAboveRoot (s # ss) res =
     (if s = [] then normalizeString allowAboveRoot ss res
      else if s = ''.'' then normalizeString allowAboveRoot ss res
      else if s = ''..'' then
        (case res of
           [] \<Rightarrow> normalizeString allowAboveRoot ss (if allowAboveRoot then [''..''] else [])
         | r # rs \<Rightarrow>
             if r = ''..''
             then normalizeString allowAboveRoot ss (if allowAboveRoot then ''..'' # res else res)
             else normalizeString allowAboveRoot ss rs)
      else normalizeString allowAboveRoot ss (s # res))"

definition path_normalize :: "string \<Rightarrow> string" where
  "path_normalize p =
     (if p = [] then ''.''
      else
        let isAbsolute = (hd p = slash);
            trailingSeparator = (last p = slash);
            q = join_segs (normalizeString (\<not> isAbsolute) (split_on slash p) [])
        in if q = [] then (if isAbsolute then ''/'' else if trailingSeparator then ''./'' else ''.'')
           else (if isAbsolute then ''/'' else []) @ q @ (if trailingSeparator then ''/'' else []))"

definition path_join :: "string \<Rightarrow> string \<Rightarrow> string" where
  "path_join a b =
     (let joined = (if a = [] then b else if b = [] then a else a @ slash # b)
      in if joined = [] then ''.'' else path_normalize joined)"

definition path_extname :: "string \<Rightarrow> string" where
  "path_extname p =
     (case rev (filter (\<lambda>s. s \<noteq> []) (split_on slash p)) of
        [] \<Rightarrow> []
      | base # _ \<Rightarrow>
          if CHR ''.'' \<notin> set base then []
          else
            let ext = CHR ''.'' # rev (takeWhile (\<lambda>c. c \<noteq> CHR ''.'') (rev base))
            in if length ext = length base then []
               else if base = ''..'' then []
               else ext)"

section \<open>The core functions of \<open>src/server.js\<close>\<close>

text \<open>
  \<open>publicDir\<close> is the module constant \<open>path.join(__dirname, "public")\<close>; the directory
  of the module is a parameter.
\<close>

definition publicDir :: "string \<Rightarrow> string" where
  "publicDir dirname = path_join dirname ''public''"

text \<open>
  \<open>.replace(/^\\+|^\/+/, "")\<close>: without the global flag the first match is replaced, and
  both alternatives are anchored at the start, so either a leading run of backslashes
  or, failing that, a leading run of slashes is removed.
\<close>

definition stripLeading :: "string \<Rightarrow> string" where
  "stripLeading s =
     (if s \<noteq> [] \<and> hd s = backslash then dropWhile (\<lambda>c. c = backslash) s
      else dropWhile (\<lambda>c. c = slash) s)"

definition safeResolveFromPublic :: "string \<Rightarrow> string \<Rightarrow> string option" where
  "safeResolveFromPublic pubDir requestUrl =
     (let urlPath = hd (split_on CHR ''#'' (hd (split_on CHR ''?'' requestUrl)));
          rawPath = (if urlPath = ''/'' then ''/index.html'' else urlPath);
          normalizedPath = stripLeading (path_normalize rawPath);
          resolved = path_join pubDir normalizedPath
      in if \<not> startsWith resolved pubDir then None else Some resolved)"


definition contentTypes :: "(string \<times> string) list" where
  "contentTypes =
     [(''.html'', ''text/html; charset=utf-8''),
      (''.css'', ''text/css; charset=utf-8''),
      (''.js'', ''text/javascript; charset=utf-8''),
      (''.mjs'', ''text/javascript; charset=utf-8''),
      (''.json'', ''application/json; charset=utf-8''),
      (''.svg'', ''image/svg+xml''),
      (''.png'', ''image/png''),
      (''.jpg'', ''image/jpeg''),
      (''.jpeg'', ''image/jpeg''),
      (''.gif'', ''image/gif''),
      (''.ico'', ''image/x-icon''),
      (''.webp'', ''image/webp'')]"

definition getContentType :: "string \<Rightarrow> string" where
  "getContentType filePath =
     (let ext = toLowerCase (path_extname filePath)
      in case map_of contentTypes ext of
           Some t \<Rightarrow> t
         | None \<Rightarrow> ''application/octet-stream'')"

text \<open>
  What \<open>fs.promises.stat\<close> returns, as far as the servers read it.  \<open>ino\<close> and \<open>size\<close>
  are whole numbers; \<open>mtimeMs\<close> is a number of milliseconds with a fraction.
\<close>

record stats =
  st_ino :: nat
  st_size :: nat
  st_mtimeMs :: rat
  st_isDirectory :: bool

text \<open>
  The value of a response header: a string, or a number such as \<open>stat.size\<close>.
\<close>

datatype hvalue = HStr string | HNum nat

text \<open>
  The runtime services the servers call and the repository does not define: the SHA-1
  hex digest of \<open>crypto\<close>, the conversion of a number to a string inside a template
  literal, \<open>Date.prototype.toUTCString\<close> of the modification time, and the JSON text of
  the health payload (it holds the process uptime).  The last two are services of
  Express, used by \<open>res.send\<close>: the weak ETag it computes of a body (the default
  \<open>etag\<close> setting of an application), and the \<open>fresh\<close> test of the request headers
  against the \<open>ETag\<close> and \<open>Last-Modified\<close> of the response.
\<close>

record runtime =
  sha1_hex :: "string \<Rightarrow> string"
  num_str :: "rat \<Rightarrow> string"
  utc_string :: "rat \<Rightarrow> string"
  health_json :: string
  body_etag :: "string \<Rightarrow> string"
  fresh_lib :: "(string \<Rightarrow> string option) \<Rightarrow> hvalue option \<Rightarrow> hvalue option \<Rightarrow> bool"

definition computeEtag :: "runtime \<Rightarrow> stats \<Rightarrow> string" where
  "computeEtag rt st =
     (let etagBase = num_str rt (of_nat (st_ino st)) @ ''-'' @
                     num_str rt (of_nat (st_size st)) @ ''-'' @
                     num_str rt (st_mtimeMs st)
      in ''W/'' @ [dquote] @ sha1_hex rt etagBase @ [dquote])"

datatype zstream = BrotliCompress | Gzip | Deflate

record compression =
  enc :: string
  stream :: zstream

definition selectCompression :: "string \<Rightarrow> compression option" where
  "selectCompression acceptEncoding =
     (if acceptEncoding = [] then None
      else if str_includes acceptEncoding ''br''
        then Some \<lparr>enc = ''br'', stream = BrotliCompress\<rparr>
      else if str_includes acceptEncoding ''gzip''
        then Some \<lparr>enc = ''gzip'', stream = Gzip\<rparr>
      else if str_includes acceptEncoding ''deflate''
        then Some \<lparr>enc = ''deflate'', stream = Deflate\<rparr>
      else None)"

section \<open>Requests, responses and the file system\<close>

text \<open>
  A request is its URL and its header object (keys in lower case, as Node delivers
  them).  The file system answers \<open>stat\<close> and \<open>readFile\<close> with a value or fails
  (\<open>None\<close>: the promise rejects); \<open>fs_readable\<close> tells whether the stream opened by
  \<open>createReadStream\<close> delivers the file, or emits \<open>error\<close> before any data.
\<close>

record request =
  req_url :: string
  req_headers :: "string \<Rightarrow> string option"

record filesystem =
  fs_stat :: "string \<Rightarrow> stats option"
  fs_readFile :: "string \<Rightarrow> string option"
  fs_readable :: "string \<Rightarrow> bool"

datatype fs_op = Stat string | ReadFile string | CreateReadStream string

type_synonym header_set = "(string \<times> hvalue) list"

datatype body = NoBody | Text string | Buffer string | Piped string "zstream option"

datatype js_error = ERR_HTTP_HEADERS_SENT

text \<open>
  The response object: the status code, the headers set so far (the last write of a
  name wins), the body handed over, and whether the head has been written.  Writing the
  head, or setting a header, after the head has been written throws.
\<close>

record res =
  headersSent :: bool
  statusCode :: nat
  res_headers :: header_set
  res_body :: body

definition newResponse :: res where
  "newResponse = \<lparr>headersSent = False, statusCode = 200, res_headers = [], res_body = NoBody\<rparr>"

fun setHeaders :: "header_set \<Rightarrow> header_set \<Rightarrow> header_set" where
  "setHeaders [] hs = hs"
| "setHeaders ((k, v) # kvs) hs = setHeaders kvs (AList.update k v hs)"

definition writeHead :: "nat \<Rightarrow> header_set \<Rightarrow> res \<Rightarrow> js_error + res" where
  "writeHead code hs r =
     (if headersSent r then Inl ERR_HTTP_HEADERS_SENT
      else Inr (r\<lparr>headersSent := True, statusCode := code,
                  res_headers := setHeaders hs (res_headers r)\<rparr>))"

definition res_end :: "body \<Rightarrow> res \<Rightarrow> res" where
  "res_end b r = r\<lparr>headersSent := True, res_body := b\<rparr>"

text \<open>
  What a request ends in: the response, the file-system operations performed in order,
  and the exception, if any, that escaped every handler.
\<close>

record outcome =
  out_res :: res
  out_ops :: "fs_op list"
  out_thrown :: "js_error option"

abbreviation plainText :: header_set where
  "plainText \<equiv> [(''Content-Type'', HStr ''text/plain; charset=utf-8'')]"

abbreviation htmlText :: header_set where
  "htmlText \<equiv> [(''Content-Type'', HStr ''text/html; charset=utf-8'')]"

section \<open>The request handler of \<open>src/server.js\<close>\<close>

text \<open>The \<open>catch (err)\<close> that closes the handler.\<close>

definition internalServerError :: "res \<Rightarrow> fs_op list \<Rightarrow> outcome" where
  "internalServerError r ops =
     (case writeHead 500 plainText r of
        Inr r' \<Rightarrow> \<lparr>out_res = res_end (Text ''Internal Server Error'') r', out_ops = ops,
                   out_thrown = None\<rparr>
      | Inl e \<Rightarrow> \<lparr>out_res = r, out_ops = ops, out_thrown = Some e\<rparr>)"

text \<open>\<open>res.writeHead(code, headers); res.end(body); return;\<close> inside the \<open>try\<close>.\<close>

definition respond :: "nat \<Rightarrow> header_set \<Rightarrow> body \<Rightarrow> res \<Rightarrow> fs_op list \<Rightarrow> outcome" where
  "respond code hs b r ops =
     (case writeHead code hs r of
        Inr r' \<Rightarrow> \<lparr>out_res = res_end b r', out_ops = ops, out_thrown = None\<rparr>
      | Inl e \<Rightarrow> internalServerError r ops)"

text \<open>
  The inner \<open>try\<close>: stat the resolved path and, for a directory, stat \<open>index.html\<close>
  inside it.  \<open>None\<close> is the \<open>catch (e)\<close>.
\<close>

definition statTarget :: "filesystem \<Rightarrow> string \<Rightarrow> (string \<times> stats) option \<times> fs_op list" where
  "statTarget fs resolvedPath =
     (case fs_stat fs resolvedPath of
        None \<Rightarrow> (None, [Stat resolvedPath])
      | Some st \<Rightarrow>
          if st_isDirectory st then
            (let filePath = path_join resolvedPath ''index.html''
             in case fs_stat fs filePath of
                  None \<Rightarrow> (None, [Stat resolvedPath, Stat filePath])
                | Some st' \<Rightarrow> (Some (filePath, st'), [Stat resolvedPath, Stat filePath]))
          else (Some (resolvedPath, st), [Stat resolvedPath]))"

definition notFound :: "string \<Rightarrow> filesystem \<Rightarrow> res \<Rightarrow> fs_op list \<Rightarrow> outcome" where
  "notFound pubDir fs r ops =
     (let notFoundPath = path_join pubDir ''404.html''
      in case fs_readFile fs notFoundPath of
           Some nf \<Rightarrow> respond 404 htmlText (Buffer nf) r (ops @ [ReadFile notFoundPath])
         | None \<Rightarrow> respond 404 plainText (Text ''404 Not Found'') r (ops @ [ReadFile notFoundPath]))"

text \<open>
  The \<open>error\<close> listener of the read stream.  It runs from the event loop, outside the
  handler's \<open>try\<close>, so what it throws escapes.
\<close>

definition onStreamError :: "res \<Rightarrow> fs_op list \<Rightarrow> outcome" where
  "onStreamError r ops =
     (case writeHead 500 plainText r of
        Inr r' \<Rightarrow> \<lparr>out_res = res_end (Text ''Server Error'') r', out_ops = ops, out_thrown = None\<rparr>
      | Inl e \<Rightarrow> \<lparr>out_res = r, out_ops = ops, out_thrown = Some e\<rparr>)"

definition pipeFile ::
  "filesystem \<Rightarrow> string \<Rightarrow> zstream option \<Rightarrow> header_set \<Rightarrow> res \<Rightarrow> fs_op list \<Rightarrow> outcome" where
  "pipeFile fs filePath z headers r ops =
     (case writeHead 200 headers r of
        Inl e \<Rightarrow> internalServerError r ops
      | Inr r' \<Rightarrow>
          if fs_readable fs filePath
          then \<lparr>out_res = res_end (Piped filePath z) r', out_ops = ops, out_thrown = None\<rparr>
          else onStreamError r' ops)"

definition isFresh :: "request \<Rightarrow> string \<Rightarrow> string \<Rightarrow> bool" where
  "isFresh req etag lastModified =
     (req_headers req ''if-none-match'' = Some etag \<or>
      req_headers req ''if-modified-since'' = Some lastModified)"

definition cacheControl :: "string \<Rightarrow> hvalue" where
  "cacheControl contentType =
     (if startsWith contentType ''text/html'' then HStr ''no-cache''
      else HStr ''public, max-age=3600, immutable'')"

definition acceptEncodingOf :: "request \<Rightarrow> string" where
  "acceptEncodingOf req = (case req_headers req ''accept-encoding'' of None \<Rightarrow> [] | Some v \<Rightarrow> v)"

definition sendFile ::
  "runtime \<Rightarrow> filesystem \<Rightarrow> request \<Rightarrow> string \<Rightarrow> stats \<Rightarrow> res \<Rightarrow> fs_op list \<Rightarrow> outcome" where
  "sendFile rt fs req filePath st r ops =
     (let contentType = getContentType filePath;
          etag = computeEtag rt st;
          lastModified = utc_string rt (st_mtimeMs st)
      in if isFresh req etag lastModified then respond 304 [] NoBody r ops
         else
           let headers = [(''Content-Type'', HStr contentType),
                          (''Last-Modified'', HStr lastModified),
                          (''ETag'', HStr etag)];
               headers = AList.update ''Cache-Control'' (cacheControl contentType) headers;
               compression = selectCompression (acceptEncodingOf req);
               ops = ops @ [CreateReadStream filePath]
           in case compression of
                Some c \<Rightarrow>
                  pipeFile fs filePath (Some (stream c))
                    (AList.update ''Content-Encoding'' (HStr (enc c)) headers) r ops
              | None \<Rightarrow>
                  pipeFile fs filePath None
                    (AList.update ''Content-Length'' (HNum (st_size st)) headers) r ops)"

definition serveStatic :: "runtime \<Rightarrow> string \<Rightarrow> filesystem \<Rightarrow> request \<Rightarrow> outcome" where
  "serveStatic rt pubDir fs req =
     (case safeResolveFromPublic pubDir (if req_url req = [] then ''/'' else req_url req) of
        None \<Rightarrow> respond 400 plainText (Text ''Bad Request'') newResponse []
      | Some resolvedPath \<Rightarrow>
          (case statTarget fs resolvedPath of
             (None, ops) \<Rightarrow> notFound pubDir fs newResponse ops
           | (Some (filePath, st), ops) \<Rightarrow> sendFile rt fs req filePath st newResponse ops))"

definition requestListener :: "runtime \<Rightarrow> string \<Rightarrow> filesystem \<Rightarrow> request \<Rightarrow> outcome" where
  "requestListener rt pubDir fs req =
     (if req_url req = ''/api/health'' then
        respond 200
          [(''Content-Type'', HStr ''application/json; charset=utf-8''),
           (''Cache-Control'', HStr ''no-store''),
           (''Content-Length'', HNum (length (health_json rt)))]
          (Text (health_json rt)) newResponse []
      else serveStatic rt pubDir fs req)"

section \<open>The Express application of \<open>src/unnamed/part_001\<close>\<close>

text \<open>
  The second server declares the same four core functions again.  They are embedded
  from its own text, under the suffix \<open>_app\<close>.
\<close>

definition publicDir_app :: "string \<Rightarrow> string" where
  "publicDir_app dirname = path_join dirname ''public''"

definition contentTypes_app :: "(string \<times> string) list" where
  "contentTypes_app =
     [(''.html'', ''text/html; charset=utf-8''),
      (''.css'', ''text/css; charset=utf-8''),
      (''.js'', ''text/javascript; charset=utf-8''),
      (''.mjs'', ''text/javascript; charset=utf-8''),
      (''.json'', ''application/json; charset=utf-8''),
      (''.svg'', ''image/svg+xml''),
      (''.png'', ''image/png''),
      (''.jpg'', ''image/jpeg''),
      (''.jpeg'', ''image/jpeg''),
      (''.gif'', ''image/gif''),
      (''.ico'', ''image/x-icon''),
      (''.webp'', ''image/webp'')]"

definition safeResolveFromPublic_app :: "string \<Rightarrow> string \<Rightarrow> string option" where
  "safeResolveFromPublic_app pubDir requestUrl =
     (let urlPath = hd (split_on CHR ''#'' (hd (split_on CHR ''?'' requestUrl)));
          rawPath = (if urlPath = ''/'' then ''/index.html'' else urlPath);
          normalizedPath = stripLeading (path_normalize rawPath);
          resolved = path_join pubDir normalizedPath
      in if \<not> startsWith resolved pubDir then None else Some resolved)"

definition getContentType_app :: "string \<Rightarrow> string" where
  "getContentType_app filePath =
     (let ext = toLowerCase (path_extname filePath)
      in case map_of contentTypes_app ext of
           Some t \<Rightarrow> t
         | None \<Rightarrow> ''application/octet-stream'')"

definition computeEtag_app :: "runtime \<Rightarrow> stats \<Rightarrow> string" where
  "computeEtag_app rt st =
     (let etagBase = num_str rt (of_nat (st_ino st)) @ ''-'' @
                     num_str rt (of_nat (st_size st)) @ ''-'' @
                     num_str rt (st_mtimeMs st)
      in ''W/'' @ [dquote] @ sha1_hex rt etagBase @ [dquote])"

definition selectCompression_app :: "string \<Rightarrow> compression option" where
  "selectCompression_app acceptEncoding =
     (if acceptEncoding = [] then None
      else if str_includes acceptEncoding ''br''
        then Some \<lparr>enc = ''br'', stream = BrotliCompress\<rparr>
      else if str_includes acceptEncoding ''gzip''
        then Some \<lparr>enc = ''gzip'', stream = Gzip\<rparr>
      else if str_includes acceptEncoding ''deflate''
        then Some \<lparr>enc = ''deflate'', stream = Deflate\<rparr>
      else None)"

text \<open>
  The methods of the Express response the middleware calls.  \<open>res.set\<close> throws once the
  head has been written; \<open>res.status\<close> only stores the code; \<open>res.type('html')\<close> sets
  the content type of HTML.
\<close>

definition res_set :: "string \<Rightarrow> hvalue \<Rightarrow> res \<Rightarrow> js_error + res" where
  "res_set k v r =
     (if headersSent r then Inl ERR_HTTP_HEADERS_SENT
      else Inr (r\<lparr>res_headers := AList.update k v (res_headers r)\<rparr>))"

definition res_status :: "nat \<Rightarrow> res \<Rightarrow> res" where
  "res_status code r = r\<lparr>statusCode := code\<rparr>"

text \<open>
  \<open>res.send(body)\<close>, for the two kinds of body the middleware sends: a string and a
  buffer.  Before the response is ended, \<open>send\<close> completes the headers:
  \<^item> a string body with no \<open>Content-Type\<close> set gets the type of HTML, a buffer with none
    the type \<open>application/octet-stream\<close> (\<open>!this.get(...)\<close>: a header that is absent or
    the empty string counts as not set);
  \<^item> for a string body the charset of the \<open>Content-Type\<close> is set to \<open>utf-8\<close>
    (\<open>setCharset\<close>: for a media type whose only parameter, if any, is the charset, as
    every content type of this application is, the type followed by \<open>; charset=utf-8\<close>);
  \<^item> \<open>Content-Length\<close> becomes the length of the body in bytes;
  \<^item> when no \<open>ETag\<close> had been set, the weak ETag of the body (never empty) is set;
  \<^item> when the request is fresh the status becomes 304; the \<open>fresh\<close> test applies to
    a status of 2xx or 304 only;
  \<^item> a status of 204 or 304 loses \<open>Content-Type\<close>, \<open>Content-Length\<close> and
    \<open>Transfer-Encoding\<close> and the body; a status of 205 gets \<open>Content-Length: 0\<close> and
    loses the body.
  Setting a header throws once the head has been written.  Requests are the GET requests
  of the interface; for a HEAD request \<open>send\<close> would end the response without the body.
  The middleware is given a response on which nothing has been set yet: what the
  middleware registered before it adds (the headers of \<open>cors\<close>, \<open>X-Powered-By\<close>) is
  outside the pipeline.
\<close>

datatype payload = Str string | Buf string

fun payloadBytes :: "payload \<Rightarrow> string" where
  "payloadBytes (Str s) = s"
| "payloadBytes (Buf s) = s"

fun payloadBody :: "payload \<Rightarrow> body" where
  "payloadBody (Str s) = Text s"
| "payloadBody (Buf s) = Buffer s"

definition setCharset :: "string \<Rightarrow> string" where
  "setCharset type =
     (if type = [] then type
      else takeWhile (\<lambda>c. c \<noteq> CHR '';'') type @ ''; charset=utf-8'')"

fun truthy :: "hvalue option \<Rightarrow> bool" where
  "truthy None = False"
| "truthy (Some (HStr s)) = (s \<noteq> [])"
| "truthy (Some (HNum n)) = True"

definition sendHeaders :: "runtime \<Rightarrow> payload \<Rightarrow> header_set \<Rightarrow> header_set" where
  "sendHeaders rt p hs =
     (let hs = (if truthy (map_of hs ''Content-Type'') then hs
                else
                  (case p of
                     Str s \<Rightarrow> AList.update ''Content-Type'' (HStr ''text/html; charset=utf-8'') hs
                   | Buf s \<Rightarrow> AList.update ''Content-Type'' (HStr ''application/octet-stream'') hs));
          hs = (case p of
                  Str s \<Rightarrow>
                    (case map_of hs ''Content-Type'' of
                       Some (HStr t) \<Rightarrow> AList.update ''Content-Type'' (HStr (setCharset t)) hs
                     | _ \<Rightarrow> hs)
                | Buf s \<Rightarrow> hs);
          generateETag = (\<not> truthy (map_of hs ''ETag''));
          hs = AList.update ''Content-Length'' (HNum (length (payloadBytes p))) hs
      in if generateETag then AList.update ''ETag'' (HStr (body_etag rt (payloadBytes p))) hs
         else hs)"

definition expressFresh :: "runtime \<Rightarrow> request \<Rightarrow> nat \<Rightarrow> header_set \<Rightarrow> bool" where
  "expressFresh rt req code hs =
     (if (200 \<le> code \<and> code < 300) \<or> code = 304
      then fresh_lib rt (req_headers req) (map_of hs ''ETag'') (map_of hs ''Last-Modified'')
      else False)"

definition res_send :: "runtime \<Rightarrow> request \<Rightarrow> payload \<Rightarrow> res \<Rightarrow> js_error + res" where
  "res_send rt req p r =
     (if headersSent r then Inl ERR_HTTP_HEADERS_SENT
      else
        let hs = sendHeaders rt p (res_headers r);
            code = (if expressFresh rt req (statusCode r) hs then 304 else statusCode r)
        in if code = 204 \<or> code = 304 then
             Inr (r\<lparr>headersSent := True, statusCode := code,
                    res_headers := AList.delete ''Transfer-Encoding''
                      (AList.delete ''Content-Length'' (AList.delete ''Content-Type'' hs)),
                    res_body := Text []\<rparr>)
           else if code = 205 then
             Inr (r\<lparr>headersSent := True, statusCode := code,
                    res_headers := AList.delete ''Transfer-Encoding''
                      (AList.update ''Content-Length'' (HStr ''0'') hs),
                    res_body := Text []\<rparr>)
           else
             Inr (r\<lparr>headersSent := True, statusCode := code, res_headers := hs,
                    res_body := payloadBody p\<rparr>))"

definition res_type_html :: "res \<Rightarrow> js_error + res" where
  "res_type_html r = res_set ''Content-Type'' (HStr ''text/html; charset=utf-8'') r"

text \<open>Calls in sequence on the one response object; a throw stops the sequence.\<close>

fun run_steps :: "(res \<Rightarrow> js_error + res) list \<Rightarrow> res \<Rightarrow> (js_error \<times> res) + res" where
  "run_steps [] r = Inr r"
| "run_steps (f # fs) r = (case f r of Inl e \<Rightarrow> Inl (e, r) | Inr r' \<Rightarrow> run_steps fs r')"

text \<open>The \<open>catch (err)\<close> that closes the middleware.\<close>

definition internalServerError_app :: "runtime \<Rightarrow> request \<Rightarrow> res \<Rightarrow> fs_op list \<Rightarrow> outcome" where
  "internalServerError_app rt req r ops =
     (case res_send rt req (Str ''Internal Server Error'') (res_status 500 r) of
        Inr r' \<Rightarrow> \<lparr>out_res = r', out_ops = ops, out_thrown = None\<rparr>
      | Inl e \<Rightarrow> \<lparr>out_res = res_status 500 r, out_ops = ops, out_thrown = Some e\<rparr>)"

definition attempt_app ::
  "runtime \<Rightarrow> request \<Rightarrow> (res \<Rightarrow> js_error + res) list \<Rightarrow> res \<Rightarrow> fs_op list \<Rightarrow> outcome" where
  "attempt_app rt req steps r ops =
     (case run_steps steps r of
        Inr r' \<Rightarrow> \<lparr>out_res = r', out_ops = ops, out_thrown = None\<rparr>
      | Inl (e, r') \<Rightarrow> internalServerError_app rt req r' ops)"

definition statTarget_app :: "filesystem \<Rightarrow> string \<Rightarrow> (string \<times> stats) option \<times> fs_op list" where
  "statTarget_app fs resolvedPath =
     (case fs_stat fs resolvedPath of
        None \<Rightarrow> (None, [Stat resolvedPath])
      | Some st \<Rightarrow>
          if st_isDirectory st then
            (let filePath = path_join resolvedPath ''index.html''
             in case fs_stat fs filePath of
                  None \<Rightarrow> (None, [Stat resolvedPath, Stat filePath])
                | Some st' \<Rightarrow> (Some (filePath, st'), [Stat resolvedPath, Stat filePath]))
          else (Some (resolvedPath, st), [Stat resolvedPath]))"

definition notFound_app ::
  "runtime \<Rightarrow> request \<Rightarrow> string \<Rightarrow> filesystem \<Rightarrow> res \<Rightarrow> fs_op list \<Rightarrow> outcome" where
  "notFound_app rt req pubDir fs r ops =
     (let notFoundPath = path_join pubDir ''404.html''
      in case fs_readFile fs notFoundPath of
           Some nf \<Rightarrow>
             attempt_app rt req [res_type_html, res_send rt req (Buf nf)] (res_status 404 r)
               (ops @ [ReadFile notFoundPath])
         | None \<Rightarrow>
             attempt_app rt req [res_send rt req (Str ''404 Not Found'')] (res_status 404 r)
               (ops @ [ReadFile notFoundPath]))"

text \<open>The \<open>error\<close> listener of the read stream; what it throws escapes.\<close>

definition onStreamError_app :: "runtime \<Rightarrow> request \<Rightarrow> res \<Rightarrow> fs_op list \<Rightarrow> outcome" where
  "onStreamError_app rt req r ops =
     (case res_send rt req (Str ''Server Error'') (res_status 500 r) of
        Inr r' \<Rightarrow> \<lparr>out_res = r', out_ops = ops, out_thrown = None\<rparr>
      | Inl e \<Rightarrow> \<lparr>out_res = res_status 500 r, out_ops = ops, out_thrown = Some e\<rparr>)"

definition pipeFile_app ::
  "runtime \<Rightarrow> request \<Rightarrow> filesystem \<Rightarrow> string \<Rightarrow> zstream option \<Rightarrow> (res \<Rightarrow> js_error + res) \<Rightarrow>
     res \<Rightarrow> fs_op list \<Rightarrow> outcome" where
  "pipeFile_app rt req fs filePath z lastSet r ops =
     (case lastSet r of
        Inl e \<Rightarrow> internalServerError_app rt req r ops
      | Inr r' \<Rightarrow>
          if fs_readable fs filePath
          then \<lparr>out_res = res_end (Piped filePath z) r', out_ops = ops, out_thrown = None\<rparr>
          else onStreamError_app rt req r' ops)"

definition sendFile_app ::
  "runtime \<Rightarrow> filesystem \<Rightarrow> request \<Rightarrow> string \<Rightarrow> stats \<Rightarrow> res \<Rightarrow> fs_op list \<Rightarrow> outcome" where
  "sendFile_app rt fs req filePath st r ops =
     (let contentType = getContentType_app filePath;
          etag = computeEtag_app rt st;
          lastModified = utc_string rt (st_mtimeMs st)
      in if isFresh req etag lastModified
         then \<lparr>out_res = res_end NoBody (res_status 304 r), out_ops = ops, out_thrown = None\<rparr>
         else
           case run_steps
                  [res_set ''Content-Type'' (HStr contentType),
                   res_set ''Last-Modified'' (HStr lastModified),
                   res_set ''ETag'' (HStr etag),
                   res_set ''Cache-Control'' (cacheControl contentType)] r of
             Inl (e, r') \<Rightarrow> internalServerError_app rt req r' ops
           | Inr r' \<Rightarrow>
               (let compression = selectCompression_app (acceptEncodingOf req);
                    ops = ops @ [CreateReadStream filePath]
                in (case compression of
                      Some c \<Rightarrow>
                        pipeFile_app rt req fs filePath (Some (stream c))
                          (res_set ''Content-Encoding'' (HStr (enc c))) r' ops
                    | None \<Rightarrow>
                        pipeFile_app rt req fs filePath None
                          (res_set ''Content-Length'' (HNum (st_size st))) r' ops)))"

definition staticMiddleware :: "runtime \<Rightarrow> string \<Rightarrow> filesystem \<Rightarrow> request \<Rightarrow> outcome" where
  "staticMiddleware rt pubDir fs req =
     (case safeResolveFromPublic_app pubDir (req_url req) of
        None \<Rightarrow>
          attempt_app rt req [res_send rt req (Str ''Bad Request'')] (res_status 400 newResponse) []
      | Some resolvedPath \<Rightarrow>
          (case statTarget_app fs resolvedPath of
             (None, ops) \<Rightarrow> notFound_app rt req pubDir fs newResponse ops
           | (Some (filePath, st), ops) \<Rightarrow> sendFile_app rt fs req filePath st newResponse ops))"

section \<open>Auxiliary notions for the proofs\<close>

text \<open>
  A path segment that normalisation keeps as it is, and a root directory in normal
  form: absolute, made of such segments, without a trailing separator.
\<close>

definition clean_seg :: "string \<Rightarrow> bool" where
  "clean_seg s = (s \<noteq> [] \<and> s \<noteq> ''.'' \<and> s \<noteq> ''..'' \<and> slash \<notin> set s)"

definition rootDir_ok :: "string \<Rightarrow> bool" where
  "rootDir_ok d =
     (case d of [] \<Rightarrow> False | c # rest \<Rightarrow> c = slash \<and> list_all clean_seg (split_on slash rest))"

text \<open>Reading a header of a response, and the \<open>stat\<close> calls among the operations.\<close>

definition header :: "outcome \<Rightarrow> string \<Rightarrow> hvalue option" where
  "header out k = map_of (res_headers (out_res out)) k"

definition status :: "outcome \<Rightarrow> nat" where
  "status out = statusCode (out_res out)"

fun stat_calls :: "fs_op list \<Rightarrow> string list" where
  "stat_calls [] = []"
| "stat_calls (Stat p # ops) = p # stat_calls ops"
| "stat_calls (_ # ops) = stat_calls ops"

section \<open>Example environments\<close>

text \<open>
  Concrete environments at which the theorems below are instantiated.  The digest of
  \<open>exampleRuntime\<close> is a stand-in (the identity), not SHA-1, and so is its ETag of a
  body; no theorem depends on them.
\<close>

definition exampleRuntime :: runtime where
  "exampleRuntime =
     \<lparr>sha1_hex = (\<lambda>s. s), num_str = (\<lambda>q. ''7''),
      utc_string = (\<lambda>q. ''Thu, 01 Jan 1970 00:00:00 GMT''), health_json = ''{}'',
      body_etag = (\<lambda>b. ''W/'' @ [dquote] @ b @ [dquote]),
      fresh_lib = (\<lambda>reqHeaders etag lastModified. False)\<rparr>"

definition fileStat :: stats where
  "fileStat = \<lparr>st_ino = 7, st_size = 7, st_mtimeMs = 7, st_isDirectory = False\<rparr>"

definition dirStat :: stats where
  "dirStat = \<lparr>st_ino = 7, st_size = 7, st_mtimeMs = 7, st_isDirectory = True\<rparr>"

definition noFiles :: filesystem where
  "noFiles = \<lparr>fs_stat = (\<lambda>p. None), fs_readFile = (\<lambda>p. None), fs_readable = (\<lambda>p. False)\<rparr>"

definition oneFile :: filesystem where
  "oneFile =
     \<lparr>fs_stat = (\<lambda>p. if p = ''/app/public/a.txt'' then Some fileStat else None),
      fs_readFile = (\<lambda>p. None),
      fs_readable = (\<lambda>p. p = ''/app/public/a.txt'')\<rparr>"

definition unreadableFile :: filesystem where
  "unreadableFile =
     \<lparr>fs_stat = (\<lambda>p. if p = ''/app/public/a.txt'' then Some fileStat else None),
      fs_readFile = (\<lambda>p. None),
      fs_readable = (\<lambda>p. False)\<rparr>"

definition dirInDir :: filesystem where
  "dirInDir =
     \<lparr>fs_stat = (\<lambda>p. if p = ''/app/public/d'' then Some dirStat
                       else if p = ''/app/public/d/index.html'' then Some dirStat
                       else None),
      fs_readFile = (\<lambda>p. None),
      fs_readable = (\<lambda>p. False)\<rparr>"

definition emptyDir :: filesystem where
  "emptyDir =
     \<lparr>fs_stat = (\<lambda>p. if p = ''/app/public/d'' then Some dirStat else None),
      fs_readFile = (\<lambda>p. if p = ''/app/public/404.html'' then Some ''<h1>gone</h1>'' else None),
      fs_readable = (\<lambda>p. False)\<rparr>"

definition siblingFile :: filesystem where
  "siblingFile =
     \<lparr>fs_stat = (\<lambda>p. if p = ''/app/public2/s'' then Some fileStat else None),
      fs_readFile = (\<lambda>p. None),
      fs_readable = (\<lambda>p. p = ''/app/public2/s'')\<rparr>"

definition getRequest :: "string \<Rightarrow> (string \<times> string) list \<Rightarrow> request" where
  "getRequest u hs = \<lparr>req_url = u, req_headers = map_of hs\<rparr>"

section \<open>Facts about splitting, joining and normalising\<close>

lemma split_on_nonempty: "split_on c s \<noteq> []"
  by (induction s) (auto split: list.splits)

lemma split_on_notin: "c \<notin> set a \<Longrightarrow> split_on c a = [a]"
  by (induction a) auto

lemma split_on_append: "c \<notin> set a \<Longrightarrow> split_on c (a @ c # b) = a # split_on c b"
  by (induction a) auto

lemma split_on_no_sep: "t \<in> set (split_on c s) \<Longrightarrow> c \<notin> set t"
proof (induction s arbitrary: t)
  case Nil
  then show ?case by simp
next
  case (Cons x xs)
  obtain y ys where sp: "split_on c xs = y # ys"
    using split_on_nonempty by (cases "split_on c xs") auto
  show ?case
  proof (cases "x = c")
    case True
    with Cons show ?thesis by auto
  next
    case False
    with Cons.prems sp have "t = x # y \<or> t \<in> set ys" by auto
    with Cons.IH sp False show ?thesis by auto
  qed
qed

lemma hd_split_on: "hd (split_on c s) = takeWhile (\<lambda>x. x \<noteq> c) s"
  by (induction s) (auto simp: split_on_nonempty split: list.splits)

lemma join_split_on: "join_segs (split_on slash s) = s"
proof (induction s)
  case Nil
  then show ?case by simp
next
  case (Cons x xs)
  obtain y ys where sp: "split_on slash xs = y # ys"
    using split_on_nonempty by (cases "split_on slash xs") auto
  with Cons show ?case by (cases ys) auto
qed

lemma join_segs_Cons: "ss \<noteq> [] \<Longrightarrow> join_segs (s # ss) = s @ slash # join_segs ss"
  by (cases ss) auto

lemma join_segs_append:
  "xs \<noteq> [] \<Longrightarrow> ys \<noteq> [] \<Longrightarrow> join_segs (xs @ ys) = join_segs xs @ slash # join_segs ys"
  by (induction xs rule: join_segs.induct) (auto simp: join_segs_Cons)

lemma split_on_join:
  "segs \<noteq> [] \<Longrightarrow> list_all (\<lambda>s. slash \<notin> set s) segs \<Longrightarrow> split_on slash (join_segs segs) = segs"
  by (induction segs rule: join_segs.induct) (auto simp: split_on_notin split_on_append)

lemma normalizeString_clean:
  "list_all clean_seg ss \<Longrightarrow> normalizeString a ss res = rev res @ ss"
  by (induction ss arbitrary: res) (auto simp: clean_seg_def)

lemma normalizeString_append:
  "normalizeString a (xs @ ys) res = normalizeString a ys (rev (normalizeString a xs res))"
  by (induction a xs res rule: normalizeString.induct) (auto split: list.splits)

lemma normalizeString_root_clean:
  "list_all clean_seg res \<Longrightarrow> list_all (\<lambda>s. slash \<notin> set s) ss \<Longrightarrow>
   list_all clean_seg (normalizeString False ss res)"
  by (induction "False" ss res rule: normalizeString.induct)
     (auto simp: clean_seg_def split: list.splits)

lemma join_segs_empty: "list_all clean_seg segs \<Longrightarrow> join_segs segs = [] \<longleftrightarrow> segs = []"
  by (induction segs rule: join_segs.induct) (auto simp: clean_seg_def)


lemma split_on_append_sep: "split_on c (a @ c # b) = split_on c a @ split_on c b"
proof (induction a)
  case Nil
  then show ?case by simp
next
  case (Cons x xs)
  obtain y ys where sp: "split_on c xs = y # ys"
    using split_on_nonempty by (cases "split_on c xs") auto
  with Cons show ?case by auto
qed

lemma hd_not_member: "s \<noteq> [] \<Longrightarrow> c \<notin> set s \<Longrightarrow> hd s \<noteq> c"
  by (cases s) auto

lemma last_not_member: "s \<noteq> [] \<Longrightarrow> c \<notin> set s \<Longrightarrow> last s \<noteq> c"
  by (induction s) auto

lemma join_segs_hd:
  "list_all clean_seg segs \<Longrightarrow> segs \<noteq> [] \<Longrightarrow> join_segs segs \<noteq> [] \<and> hd (join_segs segs) \<noteq> slash"
proof (induction segs rule: join_segs.induct)
  case (2 s)
  then have "s \<noteq> []" and "slash \<notin> set s" by (simp_all add: clean_seg_def)
  then show ?case by (simp add: hd_not_member)
next
  case (3 s t ss)
  then have "s \<noteq> []" and "slash \<notin> set s" by (simp_all add: clean_seg_def)
  then show ?case by (simp add: hd_append hd_not_member)
qed simp

lemma join_segs_last:
  "list_all clean_seg segs \<Longrightarrow> segs \<noteq> [] \<Longrightarrow> last (join_segs segs) \<noteq> slash"
proof (induction segs rule: join_segs.induct)
  case (2 s)
  then have "s \<noteq> []" and "slash \<notin> set s" by (simp_all add: clean_seg_def)
  then show ?case by (simp add: last_not_member)
next
  case (3 s t ss)
  then have "join_segs (t # ss) \<noteq> []" using join_segs_hd [of "t # ss"] by simp
  with 3 show ?case by simp
qed simp

lemma clean_no_slash: "list_all clean_seg xs \<Longrightarrow> list_all (\<lambda>s. slash \<notin> set s) xs"
  by (induction xs) (auto simp: clean_seg_def)

lemma split_on_all_no_sep: "list_all (\<lambda>s. c \<notin> set s) (split_on c p)"
  using split_on_no_sep by (auto simp: list_all_iff)

lemma normalize_absolute:
  assumes "p \<noteq> []" and "hd p = slash"
  shows "list_all clean_seg (normalizeString False (split_on slash p) [])"
    and "path_normalize p =
          (if normalizeString False (split_on slash p) [] = [] then ''/''
           else slash # join_segs (normalizeString False (split_on slash p) []) @
                (if last p = slash then ''/'' else []))"
proof -
  let ?segs = "normalizeString False (split_on slash p) []"
  show cl: "list_all clean_seg ?segs"
    by (rule normalizeString_root_clean) (simp_all add: split_on_all_no_sep)
  from cl have "join_segs ?segs = [] \<longleftrightarrow> ?segs = []"
    by (rule join_segs_empty)
  with assms show "path_normalize p =
          (if ?segs = [] then ''/''
           else slash # join_segs ?segs @ (if last p = slash then ''/'' else []))"
    by (simp add: path_normalize_def Let_def)
qed

lemma normalize_clean_absolute:
  assumes cl: "list_all clean_seg xs" and ne: "xs \<noteq> []"
  shows "path_normalize (slash # join_segs xs @ (if b then ''/'' else [])) =
         slash # join_segs xs @ (if b then ''/'' else [])"
proof -
  let ?p = "slash # join_segs xs @ (if b then ''/'' else [])"
  have ns: "list_all (\<lambda>s. slash \<notin> set s) (xs @ [[]])"
    using clean_no_slash [OF cl] by simp
  have sp: "split_on slash ?p = [] # xs @ (if b then [[]] else [])"
  proof (cases b)
    case True
    have "join_segs xs @ ''/'' = join_segs (xs @ [[]])"
      using ne by (simp add: join_segs_append)
    then have "split_on slash (join_segs xs @ ''/'') = xs @ [[]]"
      using split_on_join [OF _ ns] by simp
    with True show ?thesis by simp
  next
    case False
    then show ?thesis
      using split_on_join [OF ne clean_no_slash [OF cl]] by simp
  qed
  have nz: "normalizeString False (split_on slash ?p) [] = xs"
    unfolding sp using cl by (cases b) (simp_all add: normalizeString_append normalizeString_clean)
  have lst: "last ?p = slash \<longleftrightarrow> b"
    using join_segs_last [OF cl ne] join_segs_hd [OF cl ne] by simp
  have "path_normalize ?p = (if xs = [] then ''/'' else slash # join_segs xs @ (if last ?p = slash then ''/'' else []))"
    using normalize_absolute(2) [of ?p] unfolding nz by simp
  with ne lst show ?thesis by simp
qed

lemma rootDir_ok_segs:
  assumes "rootDir_ok d"
  obtains rs where "list_all clean_seg rs" and "rs \<noteq> []" and "d = slash # join_segs rs"
proof -
  from assms obtain rest where d: "d = slash # rest" and cl: "list_all clean_seg (split_on slash rest)"
    by (auto simp: rootDir_ok_def split: list.splits)
  show thesis
    by (rule that [of "split_on slash rest"]) (simp_all add: cl split_on_nonempty d join_split_on)
qed

lemma publicDir_ok:
  assumes "dirname \<noteq> []" and "hd dirname = slash"
  shows "rootDir_ok (publicDir dirname)"
proof -
  let ?p = "dirname @ slash # ''public''"
  let ?X = "normalizeString False (split_on slash dirname) []"
  have X: "list_all clean_seg ?X"
    using normalize_absolute(1) [OF assms] .
  have sp: "split_on slash ?p = split_on slash dirname @ [''public'']"
    by (simp add: split_on_append_sep)
  have nz: "normalizeString False (split_on slash ?p) [] = ?X @ [''public'']"
    by (simp add: sp normalizeString_append)
  have cl: "list_all clean_seg (?X @ [''public''])"
    using X by (simp add: clean_seg_def)
  have "path_normalize ?p = slash # join_segs (?X @ [''public''])"
    using normalize_absolute(2) [of ?p] assms unfolding nz by simp
  then have pd: "publicDir dirname = slash # join_segs (?X @ [''public''])"
    using assms by (simp add: publicDir_def path_join_def)
  have "split_on slash (join_segs (?X @ [''public''])) = ?X @ [''public'']"
    by (rule split_on_join) (use clean_no_slash [OF cl] in simp_all)
  with cl show ?thesis
    unfolding pd rootDir_ok_def by simp
qed


lemma normalize_root: "rootDir_ok d \<Longrightarrow> path_normalize d = d"
proof -
  assume "rootDir_ok d"
  then obtain rs where rs: "list_all clean_seg rs" "rs \<noteq> []" "d = slash # join_segs rs"
    by (rule rootDir_ok_segs)
  show ?thesis
    using normalize_clean_absolute [OF rs(1,2), of False] rs(3) by simp
qed

lemma path_join_under_root:
  assumes root: "rootDir_ok d" and cl: "list_all clean_seg segs" and ne: "segs \<noteq> []"
  shows "path_join d (join_segs segs @ (if b then ''/'' else [])) =
         d @ slash # join_segs segs @ (if b then ''/'' else [])"
proof -
  from root obtain rs where rs: "list_all clean_seg rs" "rs \<noteq> []" "d = slash # join_segs rs"
    by (rule rootDir_ok_segs)
  have all: "list_all clean_seg (rs @ segs)" and ne': "rs @ segs \<noteq> []"
    using rs cl by simp_all
  have eq: "d @ slash # join_segs segs @ (if b then ''/'' else []) =
        slash # join_segs (rs @ segs) @ (if b then ''/'' else [])"
    using rs ne by (simp add: join_segs_append)
  have "join_segs segs \<noteq> []"
    using join_segs_hd [OF cl ne] by simp
  then have "path_join d (join_segs segs @ (if b then ''/'' else [])) =
      path_normalize (d @ slash # join_segs segs @ (if b then ''/'' else []))"
    using rs(3) by (simp add: path_join_def)
  also have "\<dots> = d @ slash # join_segs segs @ (if b then ''/'' else [])"
    unfolding eq by (rule normalize_clean_absolute [OF all ne'])
  finally show ?thesis .
qed

lemma stripLeading_normalized:
  assumes cl: "list_all clean_seg segs" and ne: "segs \<noteq> []"
  shows "stripLeading (slash # join_segs segs @ t) = join_segs segs @ t"
  using join_segs_hd [OF cl ne] by (cases "join_segs segs") (simp_all add: stripLeading_def)

lemma stripLeading_root: "stripLeading ''/'' = []"
  by (simp add: stripLeading_def)

lemma safeResolve_absolute:
  assumes root: "rootDir_ok d" and url: "url \<noteq> []" "hd url = slash"
  shows "\<exists>segs b. list_all clean_seg segs \<and>
           safeResolveFromPublic d url =
             Some (if segs = [] then d else d @ slash # join_segs segs @ (if b then ''/'' else []))"
proof -
  define urlPath where "urlPath = hd (split_on CHR ''#'' (hd (split_on CHR ''?'' url)))"
  define rawPath where "rawPath = (if urlPath = ''/'' then ''/index.html'' else urlPath)"
  define segs where "segs = normalizeString False (split_on slash rawPath) []"
  have "urlPath = takeWhile (\<lambda>x. x \<noteq> CHR ''#'') (takeWhile (\<lambda>x. x \<noteq> CHR ''?'') url)"
    by (simp add: urlPath_def hd_split_on)
  moreover from url obtain rest where "url = slash # rest" by (cases url) auto
  ultimately have "urlPath \<noteq> [] \<and> hd urlPath = slash"
    by simp
  then have raw: "rawPath \<noteq> []" "hd rawPath = slash"
    by (simp_all add: rawPath_def)
  have cl: "list_all clean_seg segs"
    unfolding segs_def by (rule normalize_absolute(1) [OF raw])
  have nz: "path_normalize rawPath =
      (if segs = [] then ''/'' else slash # join_segs segs @ (if last rawPath = slash then ''/'' else []))"
    unfolding segs_def by (rule normalize_absolute(2) [OF raw])
  have d_ne: "d \<noteq> []"
    using root by (auto simp: rootDir_ok_def)
  have res: "path_join d (stripLeading (path_normalize rawPath)) =
      (if segs = [] then d else d @ slash # join_segs segs @ (if last rawPath = slash then ''/'' else []))"
  proof (cases "segs = []")
    case True
    then show ?thesis
      using d_ne normalize_root [OF root] by (simp add: nz stripLeading_root path_join_def)
  next
    case False
    then show ?thesis
      using path_join_under_root [OF root cl False, of "last rawPath = slash"]
      by (simp add: nz stripLeading_normalized [OF cl False])
  qed
  have "safeResolveFromPublic d url =
      Some (if segs = [] then d else d @ slash # join_segs segs @ (if last rawPath = slash then ''/'' else []))"
    unfolding safeResolveFromPublic_def Let_def urlPath_def [symmetric] rawPath_def [symmetric] res
    by (simp add: startsWith_def)
  with cl show ?thesis by blast
qed

section \<open>What \<open>res.send\<close> leaves in the response\<close>

lemma res_send_error:
  "\<not> headersSent r \<Longrightarrow> 400 \<le> statusCode r \<Longrightarrow>
   res_send rt req p r =
     Inr (r\<lparr>headersSent := True, res_headers := sendHeaders rt p (res_headers r),
            res_body := payloadBody p\<rparr>)"
  by (cases r) (simp add: res_send_def expressFresh_def Let_def)

lemma res_send_thrown: "headersSent r \<Longrightarrow> res_send rt req p r = Inl ERR_HTTP_HEADERS_SENT"
  by (simp add: res_send_def)

lemma sendHeaders_Str_none:
  "sendHeaders rt (Str s) [] =
     [(''Content-Type'', HStr ''text/html; charset=utf-8''),
      (''Content-Length'', HNum (length s)),
      (''ETag'', HStr (body_etag rt s))]"
  by (simp add: sendHeaders_def setCharset_def Let_def)

lemma sendHeaders_Buf_html:
  "sendHeaders rt (Buf s) htmlText =
     [(''Content-Type'', HStr ''text/html; charset=utf-8''),
      (''Content-Length'', HNum (length s)),
      (''ETag'', HStr (body_etag rt s))]"
  by (simp add: sendHeaders_def Let_def)

lemma sendHeaders_other:
  "k \<noteq> ''Content-Type'' \<Longrightarrow> k \<noteq> ''Content-Length'' \<Longrightarrow> k \<noteq> ''ETag'' \<Longrightarrow>
   map_of (sendHeaders rt p hs) k = map_of hs k"
  by (auto simp: sendHeaders_def Let_def update_conv' split: option.splits payload.splits hvalue.splits)

lemma sendHeaders_ETag_kept:
  "map_of hs ''ETag'' = Some (HStr v) \<Longrightarrow> v \<noteq> [] \<Longrightarrow>
   map_of (sendHeaders rt p hs) ''ETag'' = Some (HStr v)"
  by (auto simp: sendHeaders_def Let_def update_conv' split: option.splits payload.splits hvalue.splits)

lemma computeEtag_nonempty: "computeEtag rt st \<noteq> []" "computeEtag_app rt st \<noteq> []"
  by (simp_all add: computeEtag_def computeEtag_app_def Let_def)

section \<open>Substrings\<close>

text \<open>\<open>includes\<close> is the contiguous-sublist relation of the library.\<close>

lemma str_includes_sublist: "str_includes s sub \<longleftrightarrow> sublist sub s"
  by (induction s) (auto simp: sublist_Cons_right)

lemma selectCompression_app_eq: "selectCompression_app = selectCompression"
  by (simp add: fun_eq_iff selectCompression_app_def selectCompression_def)

section \<open>Compression selection\<close>

text \<open>
  Claim C6.  For every Accept-Encoding string, \<open>selectCompression\<close> chooses brotli when
  the string contains \<open>br\<close> as a substring, otherwise gzip when it contains \<open>gzip\<close>,
  otherwise deflate when it contains \<open>deflate\<close>, otherwise nothing; an empty string, and
  so an absent header, yields nothing.  The substring relation is \<^const>\<open>sublist\<close> of the
  library; both servers' functions are covered.
\<close>

theorem selectCompression_priority:
  "selectCompression acceptEncoding =
     (if sublist ''br'' acceptEncoding then Some \<lparr>enc = ''br'', stream = BrotliCompress\<rparr>
      else if sublist ''gzip'' acceptEncoding then Some \<lparr>enc = ''gzip'', stream = Gzip\<rparr>
      else if sublist ''deflate'' acceptEncoding then Some \<lparr>enc = ''deflate'', stream = Deflate\<rparr>
      else None)
   \<and> selectCompression_app acceptEncoding = selectCompression acceptEncoding
   \<and> selectCompression [] = None
   \<and> (req_headers req ''accept-encoding'' = None \<longrightarrow>
        selectCompression (acceptEncodingOf req) = None)"
proof -
  have "acceptEncoding = [] \<Longrightarrow> \<not> sublist ''br'' acceptEncoding \<and>
      \<not> sublist ''gzip'' acceptEncoding \<and> \<not> sublist ''deflate'' acceptEncoding"
    by simp
  then have "selectCompression acceptEncoding =
     (if sublist ''br'' acceptEncoding then Some \<lparr>enc = ''br'', stream = BrotliCompress\<rparr>
      else if sublist ''gzip'' acceptEncoding then Some \<lparr>enc = ''gzip'', stream = Gzip\<rparr>
      else if sublist ''deflate'' acceptEncoding then Some \<lparr>enc = ''deflate'', stream = Deflate\<rparr>
      else None)"
    by (auto simp: selectCompression_def str_includes_sublist)
  moreover have "selectCompression [] = None"
    by (simp add: selectCompression_def)
  ultimately show ?thesis
    by (simp add: selectCompression_app_eq acceptEncodingOf_def)
qed

theorem selectCompression_priority_witness:
  "selectCompression ''gzip, br'' = Some \<lparr>enc = ''br'', stream = BrotliCompress\<rparr>
   \<and> selectCompression ''gzip'' = Some \<lparr>enc = ''gzip'', stream = Gzip\<rparr>
   \<and> req_headers (getRequest ''/a.txt'' []) ''accept-encoding'' = None
   \<and> selectCompression (acceptEncodingOf (getRequest ''/a.txt'' [])) = None"
proof -
  have a: "req_headers (getRequest ''/a.txt'' []) ''accept-encoding'' = None"
    by (simp add: getRequest_def)
  have b: "sublist ''br'' ''gzip, br''"
    by (simp add: str_includes_sublist [symmetric])
  have c: "\<not> sublist ''br'' ''gzip'' \<and> sublist ''gzip'' ''gzip''"
    by (simp add: str_includes_sublist [symmetric])
  show ?thesis
    using selectCompression_priority [of "''gzip, br''" "getRequest ''/a.txt'' []"]
      selectCompression_priority [of "''gzip''" "getRequest ''/a.txt'' []"] a b c
    by simp
qed

section \<open>The two servers' core functions\<close>

text \<open>
  Claim C10.  The four core functions of \<open>src/server.js\<close> and the functions of the same
  name in \<open>src/unnamed/part_001\<close> are extensionally equal: for every input they return
  the same resolved path, the same MIME string, the same ETag and the same compression
  choice (and the two root directories are computed alike).
\<close>

theorem core_functions_agree:
  "safeResolveFromPublic_app = safeResolveFromPublic
   \<and> getContentType_app = getContentType
   \<and> computeEtag_app = computeEtag
   \<and> selectCompression_app = selectCompression
   \<and> publicDir_app = publicDir"
  by (simp add: fun_eq_iff safeResolveFromPublic_app_def safeResolveFromPublic_def
      getContentType_app_def getContentType_def contentTypes_app_def contentTypes_def
      computeEtag_app_def computeEtag_def selectCompression_app_def selectCompression_def
      publicDir_app_def publicDir_def)

section \<open>Agreement of the duplicated functions, and the operations of the inner try\<close>

lemma safeResolveFromPublic_app_eq: "safeResolveFromPublic_app = safeResolveFromPublic"
  by (simp add: fun_eq_iff safeResolveFromPublic_app_def safeResolveFromPublic_def)


lemma statTarget_app_eq: "statTarget_app = statTarget"
  by (simp add: fun_eq_iff statTarget_app_def statTarget_def)

lemma publicDir_app_eq: "publicDir_app = publicDir"
  by (simp add: fun_eq_iff publicDir_app_def publicDir_def)

lemma statTarget_ops:
  "statTarget fs p = (r, ops) \<Longrightarrow> ops = [Stat p] \<or> ops = [Stat p, Stat (path_join p ''index.html'')]"
  by (auto simp: statTarget_def Let_def split: option.splits if_splits)

section \<open>Conditional requests\<close>



section \<open>The three ways through the pipeline\<close>

lemma serveStatic_found:
  "safeResolveFromPublic pubDir (if req_url req = [] then ''/'' else req_url req) = Some p \<Longrightarrow>
   statTarget fs p = (Some (filePath, st), ops) \<Longrightarrow>
   serveStatic rt pubDir fs req = sendFile rt fs req filePath st newResponse ops"
  by (simp add: serveStatic_def)

lemma serveStatic_missing:
  "safeResolveFromPublic pubDir (if req_url req = [] then ''/'' else req_url req) = Some p \<Longrightarrow>
   statTarget fs p = (None, ops) \<Longrightarrow>
   serveStatic rt pubDir fs req = notFound pubDir fs newResponse ops"
  by (simp add: serveStatic_def)

lemma staticMiddleware_found:
  "safeResolveFromPublic_app pubDir (req_url req) = Some p \<Longrightarrow>
   statTarget_app fs p = (Some (filePath, st), ops) \<Longrightarrow>
   staticMiddleware rt pubDir fs req = sendFile_app rt fs req filePath st newResponse ops"
  by (simp add: staticMiddleware_def)

lemma staticMiddleware_missing:
  "safeResolveFromPublic_app pubDir (req_url req) = Some p \<Longrightarrow>
   statTarget_app fs p = (None, ops) \<Longrightarrow>
   staticMiddleware rt pubDir fs req = notFound_app rt req pubDir fs newResponse ops"
  by (simp add: staticMiddleware_def)

lemma sendFile_200_headers:
  assumes "status (sendFile rt fs req filePath st newResponse ops) = 200"
  shows "case selectCompression (acceptEncodingOf req) of
           None \<Rightarrow> header (sendFile rt fs req filePath st newResponse ops) ''Content-Length'' = Some (HNum (st_size st))
                  \<and> header (sendFile rt fs req filePath st newResponse ops) ''Content-Encoding'' = None
         | Some c \<Rightarrow> header (sendFile rt fs req filePath st newResponse ops) ''Content-Length'' = None
                  \<and> header (sendFile rt fs req filePath st newResponse ops) ''Content-Encoding'' = Some (HStr (enc c))"
  using assms
  by (auto simp: sendFile_def pipeFile_def respond_def onStreamError_def writeHead_def
      res_end_def newResponse_def status_def header_def Let_def
      split: option.splits if_splits)

lemma sendFile_app_200_headers:
  assumes "status (sendFile_app rt fs req filePath st newResponse ops) = 200"
  shows "case selectCompression_app (acceptEncodingOf req) of
           None \<Rightarrow> header (sendFile_app rt fs req filePath st newResponse ops) ''Content-Length'' = Some (HNum (st_size st))
                  \<and> header (sendFile_app rt fs req filePath st newResponse ops) ''Content-Encoding'' = None
         | Some c \<Rightarrow> header (sendFile_app rt fs req filePath st newResponse ops) ''Content-Length'' = None
                  \<and> header (sendFile_app rt fs req filePath st newResponse ops) ''Content-Encoding'' = Some (HStr (enc c))"
  using assms
  by (auto simp: sendFile_app_def pipeFile_app_def onStreamError_app_def res_set_def res_send_error
      res_status_def res_end_def newResponse_def status_def header_def Let_def
      split: option.splits if_splits)

section \<open>Content-Length and Content-Encoding\<close>

text \<open>
  Claim C7.  For every 200 response to a request that resolved to a file: when no
  compression was chosen, the response carries \<open>Content-Length\<close> equal to the size the
  \<open>stat\<close> reported and no \<open>Content-Encoding\<close>; when a compression was chosen, it
  carries no \<open>Content-Length\<close>, and \<open>Content-Encoding\<close> is the token of the chosen
  algorithm.  Stated for both servers.
\<close>

theorem content_length_or_encoding:
  "(safeResolveFromPublic pubDir (if req_url req = [] then ''/'' else req_url req) = Some resolvedPath
      \<and> statTarget fs resolvedPath = (Some (filePath, st), ops)
      \<and> status (serveStatic rt pubDir fs req) = 200 \<longrightarrow>
      (case selectCompression (acceptEncodingOf req) of
         None \<Rightarrow>
           header (serveStatic rt pubDir fs req) ''Content-Length'' = Some (HNum (st_size st)) \<and>
           header (serveStatic rt pubDir fs req) ''Content-Encoding'' = None
       | Some c \<Rightarrow>
           header (serveStatic rt pubDir fs req) ''Content-Length'' = None \<and>
           header (serveStatic rt pubDir fs req) ''Content-Encoding'' = Some (HStr (enc c))))
   \<and> (safeResolveFromPublic_app pubDir (req_url req) = Some resolvedPath
      \<and> statTarget_app fs resolvedPath = (Some (filePath, st), ops)
      \<and> status (staticMiddleware rt pubDir fs req) = 200 \<longrightarrow>
      (case selectCompression_app (acceptEncodingOf req) of
         None \<Rightarrow>
           header (staticMiddleware rt pubDir fs req) ''Content-Length'' = Some (HNum (st_size st)) \<and>
           header (staticMiddleware rt pubDir fs req) ''Content-Encoding'' = None
       | Some c \<Rightarrow>
           header (staticMiddleware rt pubDir fs req) ''Content-Length'' = None \<and>
           header (staticMiddleware rt pubDir fs req) ''Content-Encoding'' = Some (HStr (enc c))))"
proof (intro conjI impI; elim conjE)
  assume a: "safeResolveFromPublic pubDir (if req_url req = [] then ''/'' else req_url req) = Some resolvedPath"
    "statTarget fs resolvedPath = (Some (filePath, st), ops)"
    and b: "status (serveStatic rt pubDir fs req) = 200"
  note eq = serveStatic_found [OF a, of rt]
  from b show "case selectCompression (acceptEncodingOf req) of
         None \<Rightarrow>
           header (serveStatic rt pubDir fs req) ''Content-Length'' = Some (HNum (st_size st)) \<and>
           header (serveStatic rt pubDir fs req) ''Content-Encoding'' = None
       | Some c \<Rightarrow>
           header (serveStatic rt pubDir fs req) ''Content-Length'' = None \<and>
           header (serveStatic rt pubDir fs req) ''Content-Encoding'' = Some (HStr (enc c))"
    unfolding eq by (rule sendFile_200_headers)
next
  assume a: "safeResolveFromPublic_app pubDir (req_url req) = Some resolvedPath"
    "statTarget_app fs resolvedPath = (Some (filePath, st), ops)"
    and b: "status (staticMiddleware rt pubDir fs req) = 200"
  note eq = staticMiddleware_found [OF a, of rt]
  from b show "case selectCompression_app (acceptEncodingOf req) of
         None \<Rightarrow>
           header (staticMiddleware rt pubDir fs req) ''Content-Length'' = Some (HNum (st_size st)) \<and>
           header (staticMiddleware rt pubDir fs req) ''Content-Encoding'' = None
       | Some c \<Rightarrow>
           header (staticMiddleware rt pubDir fs req) ''Content-Length'' = None \<and>
           header (staticMiddleware rt pubDir fs req) ''Content-Encoding'' = Some (HStr (enc c))"
    unfolding eq by (rule sendFile_app_200_headers)
qed


theorem content_length_or_encoding_witness:
  "safeResolveFromPublic (publicDir ''/app'') ''/a.txt'' = Some ''/app/public/a.txt''
   \<and> statTarget oneFile ''/app/public/a.txt'' =
        (Some (''/app/public/a.txt'', fileStat), [Stat ''/app/public/a.txt''])
   \<and> status (serveStatic exampleRuntime (publicDir ''/app'') oneFile (getRequest ''/a.txt'' [])) = 200
   \<and> header (serveStatic exampleRuntime (publicDir ''/app'') oneFile (getRequest ''/a.txt'' []))
        ''Content-Length'' = Some (HNum (st_size fileStat))
   \<and> header (serveStatic exampleRuntime (publicDir ''/app'') oneFile (getRequest ''/a.txt'' []))
        ''Content-Encoding'' = None
   \<and> status (staticMiddleware exampleRuntime (publicDir ''/app'') oneFile
        (getRequest ''/a.txt'' [(''accept-encoding'', ''gzip'')])) = 200
   \<and> header (staticMiddleware exampleRuntime (publicDir ''/app'') oneFile
        (getRequest ''/a.txt'' [(''accept-encoding'', ''gzip'')])) ''Content-Length'' = None
   \<and> header (staticMiddleware exampleRuntime (publicDir ''/app'') oneFile
        (getRequest ''/a.txt'' [(''accept-encoding'', ''gzip'')])) ''Content-Encoding'' = Some (HStr ''gzip'')"
proof -
  let ?plain = "getRequest ''/a.txt'' []"
  let ?gzip = "getRequest ''/a.txt'' [(''accept-encoding'', ''gzip'')]"
  have u: "req_url ?plain = ''/a.txt''" "req_url ?gzip = ''/a.txt''"
    by (simp_all add: getRequest_def)
  have r: "safeResolveFromPublic (publicDir ''/app'') ''/a.txt'' = Some ''/app/public/a.txt''"
    by code_simp
  have s: "statTarget oneFile ''/app/public/a.txt'' =
        (Some (''/app/public/a.txt'', fileStat), [Stat ''/app/public/a.txt''])"
    by code_simp
  have ok: "status (serveStatic exampleRuntime (publicDir ''/app'') oneFile ?plain) = 200"
    "status (staticMiddleware exampleRuntime (publicDir ''/app'') oneFile ?gzip) = 200"
    by code_simp+
  have c: "selectCompression (acceptEncodingOf ?plain) = None"
    "selectCompression_app (acceptEncodingOf ?gzip) = Some \<lparr>enc = ''gzip'', stream = Gzip\<rparr>"
    by code_simp+
  have "header (serveStatic exampleRuntime (publicDir ''/app'') oneFile ?plain)
        ''Content-Length'' = Some (HNum (st_size fileStat))
      \<and> header (serveStatic exampleRuntime (publicDir ''/app'') oneFile ?plain)
        ''Content-Encoding'' = None"
    using content_length_or_encoding
      [where pubDir = "publicDir ''/app''" and req = ?plain and fs = oneFile
        and resolvedPath = "''/app/public/a.txt''" and filePath = "''/app/public/a.txt''"
        and st = fileStat and ops = "[Stat ''/app/public/a.txt'']" and rt = exampleRuntime]
      r s ok(1) c(1) u(1)
    by simp
  moreover have "header (staticMiddleware exampleRuntime (publicDir ''/app'') oneFile ?gzip)
        ''Content-Length'' = None
      \<and> header (staticMiddleware exampleRuntime (publicDir ''/app'') oneFile ?gzip)
        ''Content-Encoding'' = Some (HStr ''gzip'')"
    using content_length_or_encoding
      [where pubDir = "publicDir ''/app''" and req = ?gzip and fs = oneFile
        and resolvedPath = "''/app/public/a.txt''" and filePath = "''/app/public/a.txt''"
        and st = fileStat and ops = "[Stat ''/app/public/a.txt'']" and rt = exampleRuntime]
      r s ok(2) c(2) u(2)
    by (simp add: safeResolveFromPublic_app_eq statTarget_app_eq)
  ultimately show ?thesis
    using r s ok by simp
qed

section \<open>The 404 path\<close>

text \<open>
  Claim C9 says: for every resolved path whose \<open>stat\<close> fails (of the path itself, or
  of \<open>index.html\<close> inside it when it is a directory), the pipeline reads \<open>404.html\<close>
  under the root; when the read succeeds the answer is 404 with that content and the
  HTML content type, when it fails the answer is 404 with a generic plain-text body;
  either way the request ends there and no \<open>stat\<close> is repeated.  The theorem gives the
  outcome of both servers in full.  The handler of \<open>src/server.js\<close> does what the claim
  says.  The middleware of \<open>src/unnamed/part_001\<close> does so but for the fallback: it hands
  the text \<open>404 Not Found\<close> to \<open>res.send\<close> with no content type set, so the body goes out
  as \<open>text/html\<close>, not as plain text; and \<open>res.send\<close> adds \<open>Content-Length\<close> and the
  ETag of the body to both of its 404 answers.
\<close>

theorem stat_failure_gives_404:
  "(safeResolveFromPublic pubDir (if req_url req = [] then ''/'' else req_url req) = Some resolvedPath
      \<and> statTarget fs resolvedPath = (None, ops) \<longrightarrow>
      serveStatic rt pubDir fs req =
        (case fs_readFile fs (path_join pubDir ''404.html'') of
           Some nf \<Rightarrow>
             \<lparr>out_res = \<lparr>headersSent = True, statusCode = 404, res_headers = htmlText,
                         res_body = Buffer nf\<rparr>,
              out_ops = ops @ [ReadFile (path_join pubDir ''404.html'')], out_thrown = None\<rparr>
         | None \<Rightarrow>
             \<lparr>out_res = \<lparr>headersSent = True, statusCode = 404, res_headers = plainText,
                         res_body = Text ''404 Not Found''\<rparr>,
              out_ops = ops @ [ReadFile (path_join pubDir ''404.html'')], out_thrown = None\<rparr>)
      \<and> (ops = [Stat resolvedPath] \<or>
          ops = [Stat resolvedPath, Stat (path_join resolvedPath ''index.html'')]))
   \<and> (safeResolveFromPublic_app pubDir (req_url req) = Some resolvedPath
      \<and> statTarget_app fs resolvedPath = (None, ops) \<longrightarrow>
      staticMiddleware rt pubDir fs req =
        (case fs_readFile fs (path_join pubDir ''404.html'') of
           Some nf \<Rightarrow>
             \<lparr>out_res = \<lparr>headersSent = True, statusCode = 404,
                         res_headers = [(''Content-Type'', HStr ''text/html; charset=utf-8''),
                                        (''Content-Length'', HNum (length nf)),
                                        (''ETag'', HStr (body_etag rt nf))],
                         res_body = Buffer nf\<rparr>,
              out_ops = ops @ [ReadFile (path_join pubDir ''404.html'')], out_thrown = None\<rparr>
         | None \<Rightarrow>
             \<lparr>out_res = \<lparr>headersSent = True, statusCode = 404,
                         res_headers = [(''Content-Type'', HStr ''text/html; charset=utf-8''),
                                        (''Content-Length'', HNum 13),
                                        (''ETag'', HStr (body_etag rt ''404 Not Found''))],
                         res_body = Text ''404 Not Found''\<rparr>,
              out_ops = ops @ [ReadFile (path_join pubDir ''404.html'')], out_thrown = None\<rparr>)
      \<and> (ops = [Stat resolvedPath] \<or>
          ops = [Stat resolvedPath, Stat (path_join resolvedPath ''index.html'')]))"
proof (intro conjI impI; elim conjE)
  assume a: "safeResolveFromPublic pubDir (if req_url req = [] then ''/'' else req_url req) = Some resolvedPath"
    "statTarget fs resolvedPath = (None, ops)"
  show "serveStatic rt pubDir fs req =
        (case fs_readFile fs (path_join pubDir ''404.html'') of
           Some nf \<Rightarrow>
             \<lparr>out_res = \<lparr>headersSent = True, statusCode = 404, res_headers = htmlText,
                         res_body = Buffer nf\<rparr>,
              out_ops = ops @ [ReadFile (path_join pubDir ''404.html'')], out_thrown = None\<rparr>
         | None \<Rightarrow>
             \<lparr>out_res = \<lparr>headersSent = True, statusCode = 404, res_headers = plainText,
                         res_body = Text ''404 Not Found''\<rparr>,
              out_ops = ops @ [ReadFile (path_join pubDir ''404.html'')], out_thrown = None\<rparr>)"
    unfolding serveStatic_missing [OF a]
    by (simp add: notFound_def respond_def writeHead_def res_end_def newResponse_def Let_def
        split: option.splits)
  show "ops = [Stat resolvedPath] \<or>
          ops = [Stat resolvedPath, Stat (path_join resolvedPath ''index.html'')]"
    using a(2) by (rule statTarget_ops)
next
  assume a: "safeResolveFromPublic_app pubDir (req_url req) = Some resolvedPath"
    "statTarget_app fs resolvedPath = (None, ops)"
  show "staticMiddleware rt pubDir fs req =
        (case fs_readFile fs (path_join pubDir ''404.html'') of
           Some nf \<Rightarrow>
             \<lparr>out_res = \<lparr>headersSent = True, statusCode = 404,
                         res_headers = [(''Content-Type'', HStr ''text/html; charset=utf-8''),
                                        (''Content-Length'', HNum (length nf)),
                                        (''ETag'', HStr (body_etag rt nf))],
                         res_body = Buffer nf\<rparr>,
              out_ops = ops @ [ReadFile (path_join pubDir ''404.html'')], out_thrown = None\<rparr>
         | None \<Rightarrow>
             \<lparr>out_res = \<lparr>headersSent = True, statusCode = 404,
                         res_headers = [(''Content-Type'', HStr ''text/html; charset=utf-8''),
                                        (''Content-Length'', HNum 13),
                                        (''ETag'', HStr (body_etag rt ''404 Not Found''))],
                         res_body = Text ''404 Not Found''\<rparr>,
              out_ops = ops @ [ReadFile (path_join pubDir ''404.html'')], out_thrown = None\<rparr>)"
    unfolding staticMiddleware_missing [OF a]
    by (simp add: notFound_app_def attempt_app_def res_type_html_def res_set_def res_send_error
        res_status_def newResponse_def sendHeaders_Str_none sendHeaders_Buf_html Let_def
        split: option.splits)
  show "ops = [Stat resolvedPath] \<or>
          ops = [Stat resolvedPath, Stat (path_join resolvedPath ''index.html'')]"
    using a(2) unfolding statTarget_app_eq by (rule statTarget_ops)
qed

theorem stat_failure_witness:
  "safeResolveFromPublic (publicDir ''/app'') ''/d'' = Some ''/app/public/d''
   \<and> statTarget emptyDir ''/app/public/d'' =
        (None, [Stat ''/app/public/d'', Stat ''/app/public/d/index.html''])
   \<and> serveStatic exampleRuntime (publicDir ''/app'') emptyDir (getRequest ''/d'' []) =
        \<lparr>out_res = \<lparr>headersSent = True, statusCode = 404, res_headers = htmlText,
                    res_body = Buffer ''<h1>gone</h1>''\<rparr>,
         out_ops = [Stat ''/app/public/d'', Stat ''/app/public/d/index.html'',
                    ReadFile ''/app/public/404.html''],
         out_thrown = None\<rparr>
   \<and> safeResolveFromPublic (publicDir ''/app'') ''/nothing'' = Some ''/app/public/nothing''
   \<and> statTarget_app noFiles ''/app/public/nothing'' = (None, [Stat ''/app/public/nothing''])
   \<and> staticMiddleware exampleRuntime (publicDir ''/app'') noFiles (getRequest ''/nothing'' []) =
        \<lparr>out_res = \<lparr>headersSent = True, statusCode = 404,
                    res_headers = [(''Content-Type'', HStr ''text/html; charset=utf-8''),
                                   (''Content-Length'', HNum 13),
                                   (''ETag'', HStr (body_etag exampleRuntime ''404 Not Found''))],
                    res_body = Text ''404 Not Found''\<rparr>,
         out_ops = [Stat ''/app/public/nothing'', ReadFile ''/app/public/404.html''],
         out_thrown = None\<rparr>"
proof -
  let ?d = "getRequest ''/d'' []"
  let ?n = "getRequest ''/nothing'' []"
  have u: "req_url ?d = ''/d''" "req_url ?n = ''/nothing''"
    by (simp_all add: getRequest_def)
  have r: "safeResolveFromPublic (publicDir ''/app'') ''/d'' = Some ''/app/public/d''"
    "safeResolveFromPublic (publicDir ''/app'') ''/nothing'' = Some ''/app/public/nothing''"
    by code_simp+
  have s: "statTarget emptyDir ''/app/public/d'' =
        (None, [Stat ''/app/public/d'', Stat ''/app/public/d/index.html''])"
    "statTarget_app noFiles ''/app/public/nothing'' = (None, [Stat ''/app/public/nothing''])"
    by code_simp+
  have f: "fs_readFile emptyDir (path_join (publicDir ''/app'') ''404.html'') = Some ''<h1>gone</h1>''"
    "fs_readFile noFiles (path_join (publicDir ''/app'') ''404.html'') = None"
    "path_join (publicDir ''/app'') ''404.html'' = ''/app/public/404.html''"
    by code_simp+
  have "serveStatic exampleRuntime (publicDir ''/app'') emptyDir ?d =
        \<lparr>out_res = \<lparr>headersSent = True, statusCode = 404, res_headers = htmlText,
                    res_body = Buffer ''<h1>gone</h1>''\<rparr>,
         out_ops = [Stat ''/app/public/d'', Stat ''/app/public/d/index.html'',
                    ReadFile ''/app/public/404.html''],
         out_thrown = None\<rparr>"
    using stat_failure_gives_404
      [where pubDir = "publicDir ''/app''" and req = ?d and fs = emptyDir
        and resolvedPath = "''/app/public/d''" and rt = exampleRuntime
        and ops = "[Stat ''/app/public/d'', Stat ''/app/public/d/index.html'']"]
      r(1) s(1) u(1) f(1)
    by (simp add: f(3))
  moreover have "staticMiddleware exampleRuntime (publicDir ''/app'') noFiles ?n =
        \<lparr>out_res = \<lparr>headersSent = True, statusCode = 404,
                    res_headers = [(''Content-Type'', HStr ''text/html; charset=utf-8''),
                                   (''Content-Length'', HNum 13),
                                   (''ETag'', HStr (body_etag exampleRuntime ''404 Not Found''))],
                    res_body = Text ''404 Not Found''\<rparr>,
         out_ops = [Stat ''/app/public/nothing'', ReadFile ''/app/public/404.html''],
         out_thrown = None\<rparr>"
    using stat_failure_gives_404
      [where pubDir = "publicDir ''/app''" and req = ?n and fs = noFiles
        and resolvedPath = "''/app/public/nothing''" and rt = exampleRuntime
        and ops = "[Stat ''/app/public/nothing'']"]
      r(2) s(2) u(2) f(2)
    by (simp add: f(3) safeResolveFromPublic_app_eq)
  ultimately show ?thesis
    using r s by simp
qed

section \<open>Confinement of resolved paths\<close>

text \<open>
  The root directory is \<open>path.join(__dirname, "public")\<close> for an absolute \<open>__dirname\<close>.
  A request path that begins with \<open>/\<close> resolves to the root itself or to the root
  followed by a separator and further segments.
\<close>

lemma safeResolve_absolute_cases:
  assumes "dirname \<noteq> []" and "hd dirname = slash" and "requestUrl \<noteq> []" and "hd requestUrl = slash"
  obtains "safeResolveFromPublic (publicDir dirname) requestUrl = Some (publicDir dirname)"
  | rest where "safeResolveFromPublic (publicDir dirname) requestUrl =
                  Some (publicDir dirname @ slash # rest)"
proof -
  have root: "rootDir_ok (publicDir dirname)"
    using assms(1,2) by (rule publicDir_ok)
  from safeResolve_absolute [OF root assms(3,4)]
  obtain segs b where
    "safeResolveFromPublic (publicDir dirname) requestUrl =
       Some (if segs = [] then publicDir dirname
             else publicDir dirname @ slash # join_segs segs @ (if b then ''/'' else []))"
    by blast
  then show thesis
    using that by (cases "segs = []") simp_all
qed

lemma slash_request_confined:
  assumes "dirname \<noteq> []" and "hd dirname = slash"
    and "requestUrl \<noteq> []" and "hd requestUrl = slash"
  shows "(safeResolveFromPublic (publicDir dirname) requestUrl = Some resolved \<longrightarrow>
            resolved = publicDir dirname \<or> startsWith resolved (publicDir dirname @ ''/''))
       \<and> (safeResolveFromPublic_app (publicDir_app dirname) requestUrl = Some resolved \<longrightarrow>
            resolved = publicDir_app dirname \<or> startsWith resolved (publicDir_app dirname @ ''/''))"
proof -
  have "resolved = publicDir dirname \<or> startsWith resolved (publicDir dirname @ ''/'')"
    if "safeResolveFromPublic (publicDir dirname) requestUrl = Some resolved"
    using assms
  proof (cases rule: safeResolve_absolute_cases)
    case 1
    with that show ?thesis by simp
  next
    case (2 rest)
    with that show ?thesis by (auto simp: startsWith_def)
  qed
  then show ?thesis
    by (simp add: safeResolveFromPublic_app_eq publicDir_app_eq)
qed

text \<open>
  Claim C1 says that every path \<open>safeResolveFromPublic\<close> returns begins with the root
  directory's string followed by the path separator, so that every resolved file lies
  within the root.  The code breaks it.  Its guard is \<open>resolved.startsWith(publicDir)\<close>,
  a comparison with the root's string alone: for the root \<open>/app/public\<close> the request
  target \<open>http://h/../../../public2/s\<close>, and the relative \<open>../public2/s\<close> alike, is
  resolved to \<open>/app/public2/s\<close>, a file of the sibling directory \<open>/app/public2\<close>, which
  passes the guard; both servers' resolvers return it and the handler of
  \<open>src/server.js\<close> goes on to stat that file and to pipe it out with status 200.
\<close>

theorem resolved_path_escapes_root:
  "safeResolveFromPublic (publicDir ''/app'') ''http://h/../../../public2/s'' = Some ''/app/public2/s''
   \<and> safeResolveFromPublic (publicDir ''/app'') ''../public2/s'' = Some ''/app/public2/s''
   \<and> safeResolveFromPublic_app (publicDir_app ''/app'') ''http://h/../../../public2/s'' =
        Some ''/app/public2/s''
   \<and> publicDir ''/app'' = ''/app/public''
   \<and> startsWith ''/app/public2/s'' (publicDir ''/app'')
   \<and> \<not> startsWith ''/app/public2/s'' (publicDir ''/app'' @ ''/'')
   \<and> serveStatic exampleRuntime (publicDir ''/app'') siblingFile
        (getRequest ''http://h/../../../public2/s'' []) =
        \<lparr>out_res = \<lparr>headersSent = True, statusCode = 200,
                    res_headers = [(''Content-Type'', HStr ''application/octet-stream''),
                                   (''Last-Modified'', HStr ''Thu, 01 Jan 1970 00:00:00 GMT''),
                                   (''ETag'', HStr (computeEtag exampleRuntime fileStat)),
                                   (''Cache-Control'', HStr ''public, max-age=3600, immutable''),
                                   (''Content-Length'', HNum 7)],
                    res_body = Piped ''/app/public2/s'' None\<rparr>,
         out_ops = [Stat ''/app/public2/s'', CreateReadStream ''/app/public2/s''],
         out_thrown = None\<rparr>"
  by code_simp

section \<open>Rejected request paths\<close>

text \<open>
  Claim C2, as amended.  Whenever \<open>safeResolveFromPublic\<close> rejects the request path,
  the pipeline of \<open>src/server.js\<close> answers 400 with the content type of plain text and
  the text \<open>Bad Request\<close>, and does nothing else: no file-system operation is performed
  and nothing is thrown.  A request path that begins with \<open>/\<close> is never rejected, by
  either server's resolver, whatever traversal sequences it contains.
\<close>

theorem rejection_gives_400:
  assumes "dirname \<noteq> []" and "hd dirname = slash"
  shows "(safeResolveFromPublic pubDir (if req_url req = [] then ''/'' else req_url req) = None \<longrightarrow>
            serveStatic rt pubDir fs req =
              \<lparr>out_res = \<lparr>headersSent = True, statusCode = 400, res_headers = plainText,
                          res_body = Text ''Bad Request''\<rparr>,
               out_ops = [], out_thrown = None\<rparr>)
       \<and> (requestUrl \<noteq> [] \<and> hd requestUrl = slash \<longrightarrow>
            safeResolveFromPublic (publicDir dirname) requestUrl \<noteq> None \<and>
            safeResolveFromPublic_app (publicDir_app dirname) requestUrl \<noteq> None)"
proof (intro conjI impI)
  assume "safeResolveFromPublic pubDir (if req_url req = [] then ''/'' else req_url req) = None"
  then show "serveStatic rt pubDir fs req =
              \<lparr>out_res = \<lparr>headersSent = True, statusCode = 400, res_headers = plainText,
                          res_body = Text ''Bad Request''\<rparr>,
               out_ops = [], out_thrown = None\<rparr>"
    by (simp add: serveStatic_def respond_def writeHead_def res_end_def newResponse_def)
next
  assume u: "requestUrl \<noteq> [] \<and> hd requestUrl = slash"
  then have v: "requestUrl \<noteq> []" "hd requestUrl = slash"
    by simp_all
  have "safeResolveFromPublic (publicDir dirname) requestUrl \<noteq> None"
    using assms v by (cases rule: safeResolve_absolute_cases) simp_all
  then show "safeResolveFromPublic (publicDir dirname) requestUrl \<noteq> None"
    and "safeResolveFromPublic_app (publicDir_app dirname) requestUrl \<noteq> None"
    by (simp_all add: safeResolveFromPublic_app_eq publicDir_app_eq)
qed

theorem rejection_gives_400_witness:
  "''/app'' \<noteq> [] \<and> hd ''/app'' = slash
   \<and> safeResolveFromPublic (publicDir ''/app'') ''http://h/../../../etc/passwd'' = None
   \<and> serveStatic exampleRuntime (publicDir ''/app'') noFiles
        (getRequest ''http://h/../../../etc/passwd'' []) =
        \<lparr>out_res = \<lparr>headersSent = True, statusCode = 400, res_headers = plainText,
                    res_body = Text ''Bad Request''\<rparr>,
         out_ops = [], out_thrown = None\<rparr>
   \<and> ''/../../etc/passwd'' \<noteq> [] \<and> hd ''/../../etc/passwd'' = slash
   \<and> safeResolveFromPublic (publicDir ''/app'') ''/../../etc/passwd'' \<noteq> None"
proof -
  let ?req = "getRequest ''http://h/../../../etc/passwd'' []"
  have u: "req_url ?req = ''http://h/../../../etc/passwd''"
    by (simp add: getRequest_def)
  have r: "safeResolveFromPublic (publicDir ''/app'') ''http://h/../../../etc/passwd'' = None"
    by code_simp
  show ?thesis
    using rejection_gives_400 [where dirname = "''/app''" and pubDir = "publicDir ''/app''"
        and req = ?req and rt = exampleRuntime and fs = noFiles
        and requestUrl = "''/../../etc/passwd''"] r u
    by simp
qed

text \<open>
  Claim C2 as stated has every request path with a traversal sequence rejected.  The
  path \<open>/../../etc/passwd\<close> of the claim is not: normalisation stops at the root of the
  path, the result \<open>/etc/passwd\<close> is taken relative to the root directory, and the
  pipeline goes on to \<open>stat\<close>; with no such file the answer is 404, not 400.
\<close>

theorem traversal_not_rejected_counterexample:
  "safeResolveFromPublic (publicDir ''/app'') ''/../../etc/passwd'' = Some ''/app/public/etc/passwd''
   \<and> status (serveStatic exampleRuntime (publicDir ''/app'') noFiles
        (getRequest ''/../../etc/passwd'' [])) = 404
   \<and> status (staticMiddleware exampleRuntime (publicDir ''/app'') noFiles
        (getRequest ''/../../etc/passwd'' [])) = 404"
  by code_simp

text \<open>
  The middleware of \<open>src/unnamed/part_001\<close> answers a rejection with the same status and
  text and no file-system operation either; it sends the text through \<open>res.send\<close> with
  no content type set, so the answer is labelled \<open>text/html\<close> and carries the length
  and the ETag of the body.
\<close>

lemma rejection_in_middleware:
  "safeResolveFromPublic_app pubDir (req_url req) = None \<Longrightarrow>
   staticMiddleware rt pubDir fs req =
     \<lparr>out_res = \<lparr>headersSent = True, statusCode = 400,
                 res_headers = [(''Content-Type'', HStr ''text/html; charset=utf-8''),
                                (''Content-Length'', HNum 11),
                                (''ETag'', HStr (body_etag rt ''Bad Request''))],
                 res_body = Text ''Bad Request''\<rparr>,
      out_ops = [], out_thrown = None\<rparr>"
  by (simp add: staticMiddleware_def attempt_app_def res_send_error res_status_def newResponse_def
      sendHeaders_Str_none)

section \<open>Directories\<close>

lemma statTarget_directory:
  "fs_stat fs p = Some st \<Longrightarrow> st_isDirectory st \<Longrightarrow>
   statTarget fs p =
     (case fs_stat fs (path_join p ''index.html'') of
        None \<Rightarrow> None
      | Some st' \<Rightarrow> Some (path_join p ''index.html'', st'),
      [Stat p, Stat (path_join p ''index.html'')])"
  by (simp add: statTarget_def Let_def split: option.splits)

lemma stat_calls_append: "stat_calls (xs @ ys) = stat_calls xs @ stat_calls ys"
  by (induction xs rule: stat_calls.induct) simp_all

lemma out_ops_notFound: "out_ops (notFound pubDir fs newResponse ops) = ops @ [ReadFile (path_join pubDir ''404.html'')]"
  by (simp add: notFound_def respond_def writeHead_def newResponse_def Let_def split: option.splits)

lemma out_ops_notFound_app: "out_ops (notFound_app rt req pubDir fs newResponse ops) = ops @ [ReadFile (path_join pubDir ''404.html'')]"
  by (simp add: notFound_app_def attempt_app_def res_type_html_def res_set_def res_send_error
      res_status_def newResponse_def Let_def split: option.splits)

lemma status_notFound: "status (notFound pubDir fs newResponse ops) = 404"
  by (simp add: status_def notFound_def respond_def writeHead_def res_end_def newResponse_def Let_def
      split: option.splits)

lemma status_notFound_app: "status (notFound_app rt req pubDir fs newResponse ops) = 404"
  by (simp add: status_def notFound_app_def attempt_app_def res_type_html_def res_set_def res_send_error
      res_status_def newResponse_def Let_def split: option.splits)

lemma stat_calls_sendFile:
  "stat_calls (out_ops (sendFile rt fs req filePath st newResponse ops)) = stat_calls ops"
  by (auto simp: sendFile_def pipeFile_def respond_def onStreamError_def writeHead_def
      res_end_def newResponse_def Let_def stat_calls_append split: option.splits)

lemma stat_calls_sendFile_app:
  "stat_calls (out_ops (sendFile_app rt fs req filePath st newResponse ops)) = stat_calls ops"
  by (auto simp: sendFile_app_def pipeFile_app_def onStreamError_app_def res_set_def res_send_error
      res_status_def res_end_def newResponse_def Let_def stat_calls_append split: option.splits)

text \<open>
  Claim C4, as amended.  For every request path that resolves to a directory, the
  pipeline appends \<open>index.html\<close> and calls \<open>stat\<close> exactly once more: the \<open>stat\<close> calls
  of the request are those two, in that order, so there is no loop and no further
  descent.  When the second \<open>stat\<close> fails, the pipeline takes the 404 path.  Stated for
  both servers.
\<close>

theorem directory_index_stat_once:
  "(safeResolveFromPublic pubDir (if req_url req = [] then ''/'' else req_url req) = Some resolvedPath
      \<and> fs_stat fs resolvedPath = Some st \<and> st_isDirectory st \<longrightarrow>
      stat_calls (out_ops (serveStatic rt pubDir fs req)) =
        [resolvedPath, path_join resolvedPath ''index.html'']
      \<and> (fs_stat fs (path_join resolvedPath ''index.html'') = None \<longrightarrow>
           serveStatic rt pubDir fs req =
             notFound pubDir fs newResponse
               [Stat resolvedPath, Stat (path_join resolvedPath ''index.html'')]
           \<and> status (serveStatic rt pubDir fs req) = 404))
   \<and> (safeResolveFromPublic_app pubDir (req_url req) = Some resolvedPath
      \<and> fs_stat fs resolvedPath = Some st \<and> st_isDirectory st \<longrightarrow>
      stat_calls (out_ops (staticMiddleware rt pubDir fs req)) =
        [resolvedPath, path_join resolvedPath ''index.html'']
      \<and> (fs_stat fs (path_join resolvedPath ''index.html'') = None \<longrightarrow>
           staticMiddleware rt pubDir fs req =
             notFound_app rt req pubDir fs newResponse
               [Stat resolvedPath, Stat (path_join resolvedPath ''index.html'')]
           \<and> status (staticMiddleware rt pubDir fs req) = 404))"
proof (intro conjI impI; elim conjE)
  assume r: "safeResolveFromPublic pubDir (if req_url req = [] then ''/'' else req_url req) = Some resolvedPath"
    and d: "fs_stat fs resolvedPath = Some st" "st_isDirectory st"
  note t = statTarget_directory [OF d]
  show "stat_calls (out_ops (serveStatic rt pubDir fs req)) =
        [resolvedPath, path_join resolvedPath ''index.html'']"
    using r
    by (simp add: serveStatic_def t out_ops_notFound stat_calls_append stat_calls_sendFile
        split: option.splits)
  assume n: "fs_stat fs (path_join resolvedPath ''index.html'') = None"
  show eq: "serveStatic rt pubDir fs req =
             notFound pubDir fs newResponse
               [Stat resolvedPath, Stat (path_join resolvedPath ''index.html'')]"
    using r n by (simp add: serveStatic_def t)
  show "status (serveStatic rt pubDir fs req) = 404"
    unfolding eq by (rule status_notFound)
next
  assume r: "safeResolveFromPublic_app pubDir (req_url req) = Some resolvedPath"
    and d: "fs_stat fs resolvedPath = Some st" "st_isDirectory st"
  note t = statTarget_directory [OF d, folded statTarget_app_eq]
  show "stat_calls (out_ops (staticMiddleware rt pubDir fs req)) =
        [resolvedPath, path_join resolvedPath ''index.html'']"
    using r
    by (simp add: staticMiddleware_def t out_ops_notFound_app stat_calls_append
        stat_calls_sendFile_app split: option.splits)
  assume n: "fs_stat fs (path_join resolvedPath ''index.html'') = None"
  show eq: "staticMiddleware rt pubDir fs req =
             notFound_app rt req pubDir fs newResponse
               [Stat resolvedPath, Stat (path_join resolvedPath ''index.html'')]"
    using r n by (simp add: staticMiddleware_def t)
  show "status (staticMiddleware rt pubDir fs req) = 404"
    unfolding eq by (rule status_notFound_app)
qed

theorem directory_index_witness:
  "safeResolveFromPublic ''/app/public'' ''/d'' = Some ''/app/public/d''
   \<and> fs_stat emptyDir ''/app/public/d'' = Some dirStat \<and> st_isDirectory dirStat
   \<and> fs_stat emptyDir (path_join ''/app/public/d'' ''index.html'') = None
   \<and> stat_calls (out_ops (serveStatic exampleRuntime ''/app/public'' emptyDir (getRequest ''/d'' []))) =
        [''/app/public/d'', path_join ''/app/public/d'' ''index.html'']
   \<and> status (serveStatic exampleRuntime ''/app/public'' emptyDir (getRequest ''/d'' [])) = 404
   \<and> stat_calls (out_ops (staticMiddleware exampleRuntime ''/app/public'' emptyDir (getRequest ''/d'' []))) =
        [''/app/public/d'', path_join ''/app/public/d'' ''index.html'']
   \<and> status (staticMiddleware exampleRuntime ''/app/public'' emptyDir (getRequest ''/d'' [])) = 404"
proof -
  let ?req = "getRequest ''/d'' []"
  have u: "req_url ?req = ''/d''"
    by (simp add: getRequest_def)
  have r: "safeResolveFromPublic ''/app/public'' ''/d'' = Some ''/app/public/d''"
    by code_simp
  have d: "fs_stat emptyDir ''/app/public/d'' = Some dirStat" "st_isDirectory dirStat"
    "fs_stat emptyDir (path_join ''/app/public/d'' ''index.html'') = None"
    by code_simp+
  show ?thesis
    using directory_index_stat_once [where pubDir = "''/app/public''" and req = ?req
        and fs = emptyDir and resolvedPath = "''/app/public/d''" and st = dirStat
        and rt = exampleRuntime] r d u
    by (simp add: safeResolveFromPublic_app_eq status_notFound status_notFound_app
        out_ops_notFound out_ops_notFound_app)
qed

text \<open>
  Claim C4 as stated sends a directory whose \<open>index.html\<close> is again a directory to the
  404 path.  The second \<open>stat\<close> succeeds on a directory, and its result is not looked
  at again: the handler of \<open>src/server.js\<close> writes the head of a 200, and the
  middleware of \<open>src/unnamed/part_001\<close> ends in the 500 of its stream listener.
\<close>

theorem directory_inside_directory_counterexample:
  "safeResolveFromPublic (publicDir ''/app'') ''/d'' = Some ''/app/public/d''
   \<and> fs_stat dirInDir ''/app/public/d'' = Some dirStat
   \<and> path_join ''/app/public/d'' ''index.html'' = ''/app/public/d/index.html''
   \<and> fs_stat dirInDir ''/app/public/d/index.html'' = Some dirStat
   \<and> st_isDirectory dirStat
   \<and> status (serveStatic exampleRuntime (publicDir ''/app'') dirInDir (getRequest ''/d'' [])) = 200
   \<and> status (staticMiddleware exampleRuntime (publicDir ''/app'') dirInDir (getRequest ''/d'' [])) = 500"
  by code_simp

section \<open>Error responses\<close>

text \<open>
  Claim C5 says that no error response carries \<open>ETag\<close> or \<open>Last-Modified\<close>.  The
  middleware of \<open>src/unnamed/part_001\<close> breaks it: when the file was found, the request
  is not a cache hit and the read stream fails before any data, the listener sends the
  500 on the response object on which the validators have been set already.
\<close>

theorem stream_error_500_keeps_validators:
  "safeResolveFromPublic_app pubDir (req_url req) = Some resolvedPath
   \<and> statTarget_app fs resolvedPath = (Some (filePath, st), ops)
   \<and> req_headers req ''if-none-match'' \<noteq> Some (computeEtag_app rt st)
   \<and> req_headers req ''if-modified-since'' \<noteq> Some (utc_string rt (st_mtimeMs st))
   \<and> \<not> fs_readable fs filePath \<longrightarrow>
     status (staticMiddleware rt pubDir fs req) = 500
     \<and> res_body (out_res (staticMiddleware rt pubDir fs req)) = Text ''Server Error''
     \<and> header (staticMiddleware rt pubDir fs req) ''ETag'' = Some (HStr (computeEtag_app rt st))
     \<and> header (staticMiddleware rt pubDir fs req) ''Last-Modified'' =
         Some (HStr (utc_string rt (st_mtimeMs st)))"
proof (intro impI; elim conjE)
  assume a: "safeResolveFromPublic_app pubDir (req_url req) = Some resolvedPath"
    "statTarget_app fs resolvedPath = (Some (filePath, st), ops)"
    and b: "req_headers req ''if-none-match'' \<noteq> Some (computeEtag_app rt st)"
    "req_headers req ''if-modified-since'' \<noteq> Some (utc_string rt (st_mtimeMs st))"
    "\<not> fs_readable fs filePath"
  show "status (staticMiddleware rt pubDir fs req) = 500
     \<and> res_body (out_res (staticMiddleware rt pubDir fs req)) = Text ''Server Error''
     \<and> header (staticMiddleware rt pubDir fs req) ''ETag'' = Some (HStr (computeEtag_app rt st))
     \<and> header (staticMiddleware rt pubDir fs req) ''Last-Modified'' =
         Some (HStr (utc_string rt (st_mtimeMs st)))"
    unfolding staticMiddleware_found [OF a] using b
    by (auto simp: sendFile_app_def pipeFile_app_def onStreamError_app_def res_set_def res_send_error
        res_status_def res_end_def newResponse_def status_def header_def isFresh_def Let_def
        sendHeaders_other sendHeaders_ETag_kept computeEtag_nonempty split: option.splits)
qed

theorem stream_error_500_witness:
  "safeResolveFromPublic_app ''/app/public'' ''/a.txt'' = Some ''/app/public/a.txt''
   \<and> statTarget_app unreadableFile ''/app/public/a.txt'' =
        (Some (''/app/public/a.txt'', fileStat), [Stat ''/app/public/a.txt''])
   \<and> \<not> fs_readable unreadableFile ''/app/public/a.txt''
   \<and> status (staticMiddleware exampleRuntime ''/app/public'' unreadableFile (getRequest ''/a.txt'' [])) = 500
   \<and> header (staticMiddleware exampleRuntime ''/app/public'' unreadableFile (getRequest ''/a.txt'' []))
        ''ETag'' = Some (HStr (computeEtag_app exampleRuntime fileStat))
   \<and> header (staticMiddleware exampleRuntime ''/app/public'' unreadableFile (getRequest ''/a.txt'' []))
        ''Last-Modified'' = Some (HStr ''Thu, 01 Jan 1970 00:00:00 GMT'')"
proof -
  let ?req = "getRequest ''/a.txt'' []"
  have u: "req_url ?req = ''/a.txt''" "req_headers ?req ''if-none-match'' = None"
    "req_headers ?req ''if-modified-since'' = None"
    by (simp_all add: getRequest_def)
  have r: "safeResolveFromPublic_app ''/app/public'' ''/a.txt'' = Some ''/app/public/a.txt''"
    by code_simp
  have s: "statTarget_app unreadableFile ''/app/public/a.txt'' =
        (Some (''/app/public/a.txt'', fileStat), [Stat ''/app/public/a.txt''])"
    by code_simp
  have n: "\<not> fs_readable unreadableFile ''/app/public/a.txt''"
    by (simp add: unreadableFile_def)
  have l: "utc_string exampleRuntime (st_mtimeMs fileStat) = ''Thu, 01 Jan 1970 00:00:00 GMT''"
    by (simp add: exampleRuntime_def)
  show ?thesis
    using stream_error_500_keeps_validators [where pubDir = "''/app/public''" and req = ?req
        and fs = unreadableFile and resolvedPath = "''/app/public/a.txt''"
        and filePath = "''/app/public/a.txt''" and st = fileStat
        and ops = "[Stat ''/app/public/a.txt'']" and rt = exampleRuntime] r s n u l
    by simp
qed


text \<open>
  The handler of \<open>src/server.js\<close> hands a fresh header object to every \<open>writeHead\<close> of
  an error, and its error responses carry no validator.
\<close>

lemma status_sendFile:
  "status (sendFile rt fs req filePath st newResponse ops) = 200 \<or>
   status (sendFile rt fs req filePath st newResponse ops) = 304"
  by (auto simp: sendFile_def pipeFile_def respond_def onStreamError_def writeHead_def
      res_end_def newResponse_def status_def Let_def split: option.splits)

lemma headers_notFound:
  "res_headers (out_res (notFound pubDir fs newResponse ops)) = htmlText \<or>
   res_headers (out_res (notFound pubDir fs newResponse ops)) = plainText"
  by (simp add: notFound_def respond_def writeHead_def res_end_def newResponse_def Let_def
      split: option.splits)

lemma server_error_responses_bare:
  assumes "status (serveStatic rt pubDir fs req) = 400 \<or> status (serveStatic rt pubDir fs req) = 404
           \<or> status (serveStatic rt pubDir fs req) = 500"
  shows "header (serveStatic rt pubDir fs req) ''ETag'' = None
       \<and> header (serveStatic rt pubDir fs req) ''Last-Modified'' = None"
proof (cases "safeResolveFromPublic pubDir (if req_url req = [] then ''/'' else req_url req)")
  case None
  then show ?thesis
    by (simp add: serveStatic_def respond_def writeHead_def res_end_def newResponse_def header_def)
next
  case (Some p)
  obtain found ops where t: "statTarget fs p = (found, ops)"
    by (cases "statTarget fs p")
  show ?thesis
  proof (cases found)
    case None
    with Some t have "serveStatic rt pubDir fs req = notFound pubDir fs newResponse ops"
      by (simp add: serveStatic_def)
    then show ?thesis
      using headers_notFound [of pubDir fs ops] by (auto simp: header_def)
  next
    case (Some a)
    obtain filePath st where "a = (filePath, st)"
      by (cases a)
    with Some \<open>safeResolveFromPublic pubDir (if req_url req = [] then ''/'' else req_url req) = Some p\<close> t
    have "serveStatic rt pubDir fs req = sendFile rt fs req filePath st newResponse ops"
      by (simp add: serveStatic_def)
    with assms status_sendFile [of rt fs req filePath st ops] show ?thesis
      by auto
  qed
qed

section \<open>Further facts\<close>

text \<open>
  Every URL but \<open>/api/health\<close> reaches the static pipeline of \<open>src/server.js\<close>, so the
  theorems about \<open>serveStatic\<close> are theorems about the whole request listener there.
\<close>

lemma requestListener_static:
  "req_url req \<noteq> ''/api/health'' \<Longrightarrow>
   requestListener rt pubDir fs req = serveStatic rt pubDir fs req"
  by (simp add: requestListener_def)

text \<open>
  The ETag is the weak-validator prefix, the digest of the base string and a closing
  quote; it depends on the inode, the size and the modification time only, and two
  ETags are equal exactly when the digests of the two base strings are.  Whether the
  digests of two different base strings differ is a matter of the digest, which is a
  parameter here.
\<close>

lemma computeEtag_depends:
  "st_ino a = st_ino b \<Longrightarrow> st_size a = st_size b \<Longrightarrow> st_mtimeMs a = st_mtimeMs b \<Longrightarrow>
   computeEtag rt a = computeEtag rt b"
  by (simp add: computeEtag_def)

lemma computeEtag_form:
  "\<exists>digest. computeEtag rt st = ''W/'' @ dquote # digest @ [dquote]"
  by (simp add: computeEtag_def Let_def)

lemma computeEtag_eq_iff:
  "computeEtag rt a = computeEtag rt b \<longleftrightarrow>
   sha1_hex rt (num_str rt (of_nat (st_ino a)) @ ''-'' @ num_str rt (of_nat (st_size a)) @ ''-'' @
                num_str rt (st_mtimeMs a)) =
   sha1_hex rt (num_str rt (of_nat (st_ino b)) @ ''-'' @ num_str rt (of_nat (st_size b)) @ ''-'' @
                num_str rt (st_mtimeMs b))"
  by (simp add: computeEtag_def Let_def)

end
